theory Spec2Isabelle
  imports Complex_Main "HOL-Library.Product_Lexorder"
begin

section \<open>Python values, exceptions and token strings\<close>

text \<open>
  Every \<^verbatim>\<open>raise\<close> of the source, and every built-in failure (a bad index, a missing
  key, \<^verbatim>\<open>int("None")\<close>, a division by zero), is a value \<open>Inl e\<close> of the result type.
\<close>

datatype error = ValueError | KeyError | IndexError | RuntimeError | ZeroDivisionError | TypeError

definition ebind :: "error + 'a \<Rightarrow> ('a \<Rightarrow> error + 'b) \<Rightarrow> error + 'b" where
  "ebind m f = (case m of Inl e \<Rightarrow> Inl e | Inr x \<Rightarrow> f x)"

text \<open>
  A token string is \<^verbatim>\<open>"Type_Value"\<close>; the source reads it with \<^verbatim>\<open>split("_")\<close>. The model
  keeps the two halves: the type as a string and the value in parsed form. \<open>VNone\<close> is the
  text \<^verbatim>\<open>None\<close>, \<open>VInt\<close> a decimal integer, \<open>VFloat\<close> a decimal number (tempos; Python
  floats are modelled by rationals), \<open>VDur b s r\<close> the text \<^verbatim>\<open>b.s.r\<close>, \<open>VTimeSig n d\<close>
  the text \<^verbatim>\<open>n/d\<close>, and \<open>VText\<close> any other text (\<^verbatim>\<open>Metric\<close>, \<^verbatim>\<open>Note\<close>, a chord name).
\<close>

datatype val = VNone | VInt int | VFloat rat | VDur int int int | VTimeSig int int | VText string

type_synonym tok = "string \<times> val"

text \<open>Python's \<^verbatim>\<open>int(s)\<close> and \<^verbatim>\<open>float(s)\<close> on the value half of a token.\<close>

fun int_of :: "val \<Rightarrow> error + int" where
  "int_of (VInt i) = Inr i"
| "int_of _ = Inl ValueError"

fun float_of :: "val \<Rightarrow> error + rat" where
  "float_of (VInt i) = Inr (of_int i)"
| "float_of (VFloat q) = Inr q"
| "float_of _ = Inl ValueError"

text \<open>List indexing \<^verbatim>\<open>xs[i]\<close>: a negative index counts from the end, out of range raises.\<close>

definition py_nth :: "'a list \<Rightarrow> int \<Rightarrow> error + 'a" where
  "py_nth xs i =
     (if 0 \<le> i \<and> i < int (length xs) then Inr (xs ! nat i)
      else if i < 0 \<and> - int (length xs) \<le> i then Inr (xs ! nat (int (length xs) + i))
      else Inl IndexError)"

text \<open>Python's floor division, which raises on a zero divisor.\<close>

definition py_floordiv :: "int \<Rightarrow> int \<Rightarrow> error + int" where
  "py_floordiv a b = (if b = 0 then Inl ZeroDivisionError else Inr (a div b))"

section \<open>The tokenizer object\<close>

text \<open>
  The fields of \<^verbatim>\<open>self\<close> and \<^verbatim>\<open>self.config\<close> that the two tokenizations read.
  The attributes and methods of the base class \<^verbatim>\<open>MIDITokenizer\<close> are not part of the
  sources at hand; the ones the code below calls are fields here:
  \<open>beat_res_max\<close> is \<^verbatim>\<open>max(self.config.beat_res.values())\<close>, \<open>min_rest\<close> is
  \<^verbatim>\<open>self._min_rest\<close>, \<open>durations_ticks\<close> is \<^verbatim>\<open>self._durations_ticks\<close>,
  \<open>ticks_to_duration_tokens\<close> is \<^verbatim>\<open>self._ticks_to_duration_tokens(_, rest=True)\<close>,
  \<open>token_duration_to_ticks\<close> is \<^verbatim>\<open>self._token_duration_to_ticks\<close>,
  \<open>getitem\<close> is \<^verbatim>\<open>self[i, token]\<close>, \<open>vocab\<close> lists, per sub-vocabulary, the token
  of every index, \<open>midi_instruments\<close> the names of \<^verbatim>\<open>MIDI_INSTRUMENTS\<close>, and
  \<open>detect_chords\<close> the chord detector applied to the notes of a track.
\<close>

record midi_note =
  n_time :: int
  n_duration :: int
  n_pitch :: int
  n_velocity :: int

datatype desc = DNone | DEnd int | DProgram int | DLabel string | DTicks int

record event =
  ev_type :: string
  ev_value :: val
  ev_time :: int
  ev_desc :: desc

record tokenizer =
  use_programs :: bool
  use_chords :: bool
  use_rests :: bool
  use_tempos :: bool
  use_time_signatures :: bool
  remove_duplicated_notes :: bool
  log_tempos :: bool
  one_token_stream :: bool
  programs :: "int list"
  beat_res_max :: int
  time_division :: int
  default_tempo :: rat
  tempos :: "rat list"
  min_rest :: int
  durations :: "(int \<times> int \<times> int) list"
  durations_ticks :: "int list"
  max_bar_embedding :: int
  vocab :: "tok list list"
  tokens_types_graph :: "(string \<times> string list) list"
  ticks_to_duration_tokens :: "int \<Rightarrow> (int \<times> int \<times> int) list \<times> int list"
  token_duration_to_ticks :: "val \<Rightarrow> int \<Rightarrow> error + int"
  getitem :: "nat \<Rightarrow> tok \<Rightarrow> error + tok"
  midi_instruments :: "string list"
  detect_chords :: "midi_note list \<Rightarrow> int \<Rightarrow> event list"

text \<open>A dictionary lookup \<^verbatim>\<open>d[k]\<close> on an association list.\<close>

definition dict_get :: "('k \<times> 'v) list \<Rightarrow> 'k \<Rightarrow> error + 'v" where
  "dict_get d k = (case map_of d k of None \<Rightarrow> Inl KeyError | Some v \<Rightarrow> Inr v)"

section \<open>CPWord: the grammar validator\<close>

text \<open>
  \<^verbatim>\<open>CPWord._create_token_types_graph\<close>. The dictionary is an association list in
  insertion order; \<open>dict_set\<close> is \<^verbatim>\<open>dic[k] = v\<close> and \<open>dict_extend\<close> is \<^verbatim>\<open>dic[k] += v\<close>.
\<close>

definition dict_set :: "('k \<times> 'v) list \<Rightarrow> 'k \<Rightarrow> 'v \<Rightarrow> ('k \<times> 'v) list" where
  "dict_set d k v = (if k \<in> fst ` set d then map (\<lambda>(k', v'). if k' = k then (k', v) else (k', v')) d
                     else d @ [(k, v)])"

definition dict_extend :: "('k \<times> 'v list) list \<Rightarrow> 'k \<Rightarrow> 'v list \<Rightarrow> ('k \<times> 'v list) list" where
  "dict_extend d k vs = map (\<lambda>(k', v'). if k' = k then (k', v' @ vs) else (k', v')) d"

definition CPWord_create_token_types_graph :: "'a tokenizer_scheme \<Rightarrow> (string \<times> string list) list" where
  "CPWord_create_token_types_graph self =
     (let dic = [(''Bar'', [''Position'', ''Bar'']),
                 (''Position'', [''Pitch'']),
                 (''Pitch'', [''Pitch'', ''Bar'', ''Position''])];
          dic = (if use_chords self
                 then dict_extend (dict_set dic ''Rest'' [''Rest'', ''Position'']) ''Pitch'' [''Rest'']
                 else dic);
          dic = (if use_rests self
                 then dict_extend (dict_set dic ''Rest'' [''Rest'', ''Position'', ''Bar'']) ''Pitch'' [''Rest'']
                 else dic);
          dic = (if use_tempos self
                 then (let dic = dict_extend dic ''Position'' [''Position'', ''Bar'']
                       in if use_rests self
                          then dict_extend (dict_extend dic ''Position'' [''Rest'']) ''Rest'' [''Position'']
                          else dic)
                 else dic);
          dic = map (\<lambda>(k, v). (k, v @ [''Ignore''])) dic
      in dic @ [(''Ignore'', map fst dic)])"

text \<open>The inner function \<^verbatim>\<open>cp_token_type\<close> of \<^verbatim>\<open>CPWord._tokens_errors\<close>.\<close>

fun additional_token :: "tok list \<Rightarrow> int list \<Rightarrow> error + tok" where
  "additional_token tk [] = Inl RuntimeError"
| "additional_token tk (i # rest) =
     ebind (py_nth tk (- i)) (\<lambda>decoded_token.
       if fst decoded_token \<noteq> ''Ignore'' then Inr decoded_token else additional_token tk rest)"

definition cp_token_type :: "tok list \<Rightarrow> error + tok" where
  "cp_token_type tk =
     ebind (py_nth tk 0) (\<lambda>t0.
       let family = snd t0 in
       if family = VText ''Note'' then py_nth tk 2
       else if family = VText ''Metric'' then
         ebind (py_nth tk 1) (\<lambda>bar_pos.
           if fst bar_pos \<in> set [''Bar'', ''Position''] then Inr bar_pos
           else additional_token tk [1, 2, 3, 4])
       else if family = VNone then Inr (''PAD'', VNone)
       else Inl RuntimeError)"

record cp_errors_state =
  v_err :: nat
  v_previous_type :: string
  v_current_pos :: int
  v_program :: int
  v_current_pitches :: "int \<rightharpoonup> int list"

definition no_pitches :: "'a tokenizer_scheme \<Rightarrow> (int \<rightharpoonup> int list)" where
  "no_pitches self = map_of (map (\<lambda>p. (p, [])) (programs self))"

text \<open>One round of the loop \<^verbatim>\<open>for token in tokens[1:]\<close> of \<^verbatim>\<open>CPWord._tokens_errors\<close>.\<close>

definition CPWord_errors_good :: "'a tokenizer_scheme \<Rightarrow> cp_errors_state \<Rightarrow> tok list \<Rightarrow> string \<Rightarrow> val
    \<Rightarrow> error + cp_errors_state" where
  "CPWord_errors_good self st token token_type token_value =
     (if token_type = ''Bar''
      then Inr (st\<lparr>v_current_pos := - 1, v_current_pitches := no_pitches self\<rparr>)
      else if remove_duplicated_notes self \<and> token_type = ''Pitch''
      then ebind (if use_programs self
                  then ebind (py_nth token 5) (\<lambda>t5. ebind (getitem self 5 t5) (\<lambda>s. int_of (snd s)))
                  else Inr (v_program st)) (\<lambda>program.
             ebind (int_of token_value) (\<lambda>p.
               case v_current_pitches st program of
                 None \<Rightarrow> Inl KeyError
               | Some ps \<Rightarrow>
                   if p \<in> set ps
                   then Inr (st\<lparr>v_program := program, v_err := v_err st + 1\<rparr>)
                   else Inr (st\<lparr>v_program := program,
                                v_current_pitches := (v_current_pitches st)(program \<mapsto> ps @ [p])\<rparr>)))
      else if token_type = ''Position''
      then ebind (int_of token_value) (\<lambda>v.
             if v \<le> v_current_pos st \<and> v_previous_type st \<noteq> ''Rest''
             then Inr (st\<lparr>v_err := v_err st + 1\<rparr>)
             else Inr (st\<lparr>v_current_pos := v, v_current_pitches := no_pitches self\<rparr>))
      else Inr st)"

definition CPWord_errors_step :: "'a tokenizer_scheme \<Rightarrow> cp_errors_state \<Rightarrow> tok list
    \<Rightarrow> error + cp_errors_state" where
  "CPWord_errors_step self st token =
     ebind (cp_token_type token) (\<lambda>(token_type, token_value).
       ebind (dict_get (tokens_types_graph self) (v_previous_type st)) (\<lambda>successors.
         ebind (if token_type \<in> set successors
                then CPWord_errors_good self st token token_type token_value
                else Inr (st\<lparr>v_err := v_err st + 1\<rparr>)) (\<lambda>st'.
           Inr (st'\<lparr>v_previous_type := token_type\<rparr>))))"

fun CPWord_errors_loop :: "'a tokenizer_scheme \<Rightarrow> cp_errors_state \<Rightarrow> tok list list
    \<Rightarrow> error + cp_errors_state" where
  "CPWord_errors_loop self st [] = Inr st"
| "CPWord_errors_loop self st (token # rest) =
     ebind (CPWord_errors_step self st token) (\<lambda>st'. CPWord_errors_loop self st' rest)"

definition CPWord_tokens_errors :: "'a tokenizer_scheme \<Rightarrow> tok list list \<Rightarrow> error + nat" where
  "CPWord_tokens_errors self tokens =
     ebind (py_nth tokens 0) (\<lambda>first.
       ebind (cp_token_type first) (\<lambda>first_type.
         ebind (CPWord_errors_loop self
                  \<lparr>v_err = 0, v_previous_type = fst first_type, v_current_pos = - 1,
                   v_program = 0, v_current_pitches = no_pitches self\<rparr> (tl tokens)) (\<lambda>st.
           Inr (v_err st))))"

section \<open>MuMIDI: the grammar validator\<close>

text \<open>\<^verbatim>\<open>MuMIDI._create_token_types_graph\<close>.\<close>

definition MuMIDI_create_token_types_graph :: "'a tokenizer_scheme \<Rightarrow> (string \<times> string list) list" where
  "MuMIDI_create_token_types_graph self =
     (let dic = [(''Bar'', [''Bar'', ''Position'']),
                 (''Position'', [''Program'']),
                 (''Program'', [''Pitch'', ''DrumPitch'']),
                 (''Pitch'', [''Pitch'', ''Program'', ''Bar'', ''Position'']),
                 (''DrumPitch'', [''DrumPitch'', ''Program'', ''Bar'', ''Position''])]
      in if use_chords self
         then dict_set (dict_extend dic ''Program'' [''Chord'']) ''Chord'' [''Pitch'']
         else dic)"

record mu_errors_state =
  w_err :: nat
  w_previous_type :: string
  w_current_pitches :: "int list"
  w_current_bar :: int
  w_current_pos :: int

text \<open>\<^verbatim>\<open>int(x) if x != "None" else -1\<close> on the value of a position encoding.\<close>

definition pos_enc_value :: "val \<Rightarrow> error + int" where
  "pos_enc_value v = (if v \<noteq> VNone then int_of v else Inr (- 1))"

definition MuMIDI_errors_good :: "'a tokenizer_scheme \<Rightarrow> mu_errors_state \<Rightarrow> string \<Rightarrow> val \<Rightarrow> int \<Rightarrow> int
    \<Rightarrow> error + mu_errors_state" where
  "MuMIDI_errors_good self st token_type token_value bar_value pos_value =
     ebind
       (if token_type = ''Bar''
        then Inr (st\<lparr>w_current_bar := w_current_bar st + 1, w_current_pos := - 1,
                     w_current_pitches := []\<rparr>)
        else if remove_duplicated_notes self \<and> token_type = ''Pitch''
        then ebind (int_of token_value) (\<lambda>p.
               if p \<in> set (w_current_pitches st)
               then Inr (st\<lparr>w_err := w_err st + 1\<rparr>)
               else Inr (st\<lparr>w_current_pitches := w_current_pitches st @ [p]\<rparr>))
        else if token_type = ''Position''
        then ebind (int_of token_value) (\<lambda>v.
               if v \<le> w_current_pos st \<or> v \<noteq> pos_value
               then Inr (st\<lparr>w_err := w_err st + 1\<rparr>)
               else Inr (st\<lparr>w_current_pos := v, w_current_pitches := []\<rparr>))
        else if token_type = ''Program''
        then Inr (st\<lparr>w_current_pitches := []\<rparr>)
        else Inr st)
       (\<lambda>st'. if pos_value < w_current_pos st' \<or> bar_value < w_current_bar st'
              then Inr (st'\<lparr>w_err := w_err st' + 1\<rparr>)
              else Inr st')"

text \<open>
  One round of the loop of \<^verbatim>\<open>MuMIDI._tokens_errors\<close>. The \<^verbatim>\<open>continue\<close> of the
  PAD/MASK branch leaves \<open>previous_type\<close> as it was.
\<close>

definition MuMIDI_errors_step :: "'a tokenizer_scheme \<Rightarrow> mu_errors_state \<Rightarrow> tok list
    \<Rightarrow> error + mu_errors_state" where
  "MuMIDI_errors_step self st token =
     ebind (ebind (py_nth token 1) (\<lambda>t1. int_of (snd t1))) (\<lambda>bar_value.
       ebind (ebind (py_nth token 2) (\<lambda>t2. pos_enc_value (snd t2))) (\<lambda>pos_value.
         ebind (py_nth token 0) (\<lambda>(token_type, token_value).
           if list_ex (\<lambda>t. fst t \<in> set [''PAD'', ''MASK'']) token
           then Inr (st\<lparr>w_err := w_err st + 1\<rparr>)
           else
             ebind (dict_get (tokens_types_graph self) (w_previous_type st)) (\<lambda>successors.
               ebind (if token_type \<in> set successors
                      then MuMIDI_errors_good self st token_type token_value bar_value pos_value
                      else Inr (st\<lparr>w_err := w_err st + 1\<rparr>)) (\<lambda>st'.
                 Inr (st'\<lparr>w_previous_type := token_type\<rparr>))))))"

fun MuMIDI_errors_loop :: "'a tokenizer_scheme \<Rightarrow> mu_errors_state \<Rightarrow> tok list list
    \<Rightarrow> error + mu_errors_state" where
  "MuMIDI_errors_loop self st [] = Inr st"
| "MuMIDI_errors_loop self st (token # rest) =
     ebind (MuMIDI_errors_step self st token) (\<lambda>st'. MuMIDI_errors_loop self st' rest)"

definition MuMIDI_tokens_errors :: "'a tokenizer_scheme \<Rightarrow> tok list list \<Rightarrow> error + nat" where
  "MuMIDI_tokens_errors self tokens =
     ebind (py_nth tokens 0) (\<lambda>first.
       ebind (py_nth first 0) (\<lambda>f0.
         ebind (ebind (py_nth first 1) (\<lambda>f1. int_of (snd f1))) (\<lambda>current_bar.
           ebind (ebind (py_nth first 2) (\<lambda>f2. pos_enc_value (snd f2))) (\<lambda>current_pos.
             ebind (MuMIDI_errors_loop self
                      \<lparr>w_err = 0, w_previous_type = fst f0, w_current_pitches = [],
                       w_current_bar = current_bar, w_current_pos = current_pos\<rparr> (tl tokens)) (\<lambda>st.
               Inr (w_err st))))))"

section \<open>Scores\<close>

text \<open>
  The \<^verbatim>\<open>Score\<close> object of the symbolic-music library, as far as the tokenizers read and
  build it: tracks with their notes, tempo changes \<open>(time, tempo)\<close> and time-signature
  changes \<open>(time, numerator, denominator)\<close>.
\<close>

record track =
  tr_program :: int
  tr_is_drum :: bool
  tr_name :: string
  tr_notes :: "midi_note list"

record score =
  sc_ticks_per_quarter :: int
  sc_tracks :: "track list"
  sc_tempos :: "(int \<times> rat) list"
  sc_time_signatures :: "(int \<times> int \<times> int) list"

definition Note :: "int \<Rightarrow> int \<Rightarrow> int \<Rightarrow> int \<Rightarrow> midi_note" where
  "Note t d p v = \<lparr>n_time = t, n_duration = d, n_pitch = p, n_velocity = v\<rparr>"

text \<open>Python's \<^verbatim>\<open>round(x, 2)\<close> on the rational that stands for the float: ties go to even.\<close>

definition round_half_even :: "rat \<Rightarrow> int" where
  "round_half_even q =
     (let f = \<lfloor>q\<rfloor>; d = q - of_int f
      in if d < 1 / 2 then f else if 1 / 2 < d then f + 1 else if even f then f else f + 1)"

definition round2 :: "rat \<Rightarrow> rat" where
  "round2 q = of_int (round_half_even (q * 100)) / 100"

text \<open>
  Modelled from the spec: \<^verbatim>\<open>TIME_SIGNATURE\<close> of the constants module (the default 4/4),
  \<^verbatim>\<open>_compute_ticks_per_bar\<close> of the base class
  (\<^verbatim>\<open>ticks_per_bar = numerator * time_division * 4 / denominator\<close>) and
  \<^verbatim>\<open>_parse_token_time_signature\<close> of the base class (the text \<^verbatim>\<open>n/d\<close> read as two integers).
\<close>

definition TIME_SIGNATURE :: "int \<times> int" where
  "TIME_SIGNATURE = (4, 4)"

definition compute_ticks_per_bar :: "int \<times> int \<Rightarrow> int \<Rightarrow> error + int" where
  "compute_ticks_per_bar ts td = py_floordiv (fst ts * td * 4) (snd ts)"

fun parse_token_time_signature :: "val \<Rightarrow> error + int \<times> int" where
  "parse_token_time_signature (VTimeSig n d) = Inr (n, d)"
| "parse_token_time_signature _ = Inl ValueError"

section \<open>CPWord: decoding\<close>

text \<open>
  \<^verbatim>\<open>self.vocab_types_idx\<close> as \<^verbatim>\<open>CPWord._tweak_config_before_creating_voc\<close> builds it.
\<close>

definition CPWord_token_types :: "'a tokenizer_scheme \<Rightarrow> string list" where
  "CPWord_token_types self =
     [''Family'', ''Position'', ''Pitch'', ''Velocity'', ''Duration'']
     @ (if use_programs self then [''Program''] else [])
     @ (if use_chords self then [''Chord''] else [])
     @ (if use_rests self then [''Rest''] else [])
     @ (if use_tempos self then [''Tempo''] else [])
     @ (if use_time_signatures self then [''TimeSig''] else [])"

definition vocab_types_idx :: "'a tokenizer_scheme \<Rightarrow> (string \<times> int) list" where
  "vocab_types_idx self =
     (let token_types = CPWord_token_types self
      in zip token_types (map int [0 ..< length token_types]) @ [(''Bar'', 1)])"

text \<open>\<^verbatim>\<open>compound_token[self.vocab_types_idx[name]].split("_")[1]\<close>.\<close>

definition field_value :: "'a tokenizer_scheme \<Rightarrow> tok list \<Rightarrow> string \<Rightarrow> error + val" where
  "field_value self compound_token name =
     ebind (dict_get (vocab_types_idx self) name) (\<lambda>i.
       ebind (py_nth compound_token i) (\<lambda>t. Inr (snd t)))"

record cp_decode_state =
  d_tracks :: "(int \<times> track) list"
  d_tempo_changes :: "(int \<times> rat) list"
  d_time_signature_changes :: "(int \<times> int \<times> int) list"
  d_current_tick :: int
  d_tick_at_last_ts_change :: int
  d_tick_at_current_bar :: int
  d_current_bar :: int
  d_bar_at_last_ts_change :: int
  d_current_program :: int
  d_current_instrument :: "track option"
  d_previous_note_end :: int
  d_current_time_sig :: "int \<times> int \<times> int"
  d_ticks_per_bar :: int
  d_midi_tracks :: "track list"

text \<open>The name a new \<^verbatim>\<open>Track\<close> gets.\<close>

definition track_name :: "'a tokenizer_scheme \<Rightarrow> int \<Rightarrow> error + string" where
  "track_name self prog = (if prog = - 1 then Inr ''Drums'' else py_nth (midi_instruments self) prog)"

text \<open>The inner function \<^verbatim>\<open>check_inst\<close>, on the dictionary \<^verbatim>\<open>tracks\<close>.\<close>

definition check_inst :: "'a tokenizer_scheme \<Rightarrow> (int \<times> track) list \<Rightarrow> int \<Rightarrow> error + (int \<times> track) list" where
  "check_inst self tracks prog =
     (if prog \<in> fst ` set tracks then Inr tracks
      else ebind (track_name self prog) (\<lambda>name.
             Inr (tracks @ [(prog, \<lparr>tr_program = (if prog = - 1 then 0 else prog),
                                    tr_is_drum = (prog = - 1), tr_name = name, tr_notes = []\<rparr>)])))"

definition append_note :: "track \<Rightarrow> midi_note \<Rightarrow> track" where
  "append_note tr n = tr\<lparr>tr_notes := tr_notes tr @ [n]\<rparr>"

definition tracks_append :: "(int \<times> track) list \<Rightarrow> int \<Rightarrow> midi_note \<Rightarrow> (int \<times> track) list" where
  "tracks_append tracks prog n = map (\<lambda>(k, tr). if k = prog then (k, append_note tr n) else (k, tr)) tracks"

text \<open>The branch \<^verbatim>\<open>if token_family == "Note"\<close> of the decoding loop.\<close>

definition CPWord_decode_note :: "'a tokenizer_scheme \<Rightarrow> int \<Rightarrow> cp_decode_state \<Rightarrow> tok list
    \<Rightarrow> error + cp_decode_state" where
  "CPWord_decode_note self td st compound_token =
     (let pad_range_idx = (if use_programs self then 6 else 5) in
      if list_ex (\<lambda>t. snd t = VNone) (drop 2 (take pad_range_idx compound_token)) then Inr st
      else
        ebind (ebind (py_nth compound_token 2) (\<lambda>t. int_of (snd t))) (\<lambda>pitch.
        ebind (ebind (py_nth compound_token 3) (\<lambda>t. int_of (snd t))) (\<lambda>vel.
        ebind (ebind (py_nth compound_token 4) (\<lambda>t. token_duration_to_ticks self (snd t) td)) (\<lambda>duration.
        ebind (if use_programs self
               then ebind (py_nth compound_token 5) (\<lambda>t. int_of (snd t))
               else Inr (d_current_program st)) (\<lambda>current_program.
        let new_note = Note (d_current_tick st) duration pitch vel;
            st = st\<lparr>d_current_program := current_program\<rparr> in
        ebind (if one_token_stream self
               then ebind (check_inst self (d_tracks st) current_program) (\<lambda>tracks.
                      Inr (st\<lparr>d_tracks := tracks_append tracks current_program new_note\<rparr>))
               else (case d_current_instrument st of
                       None \<Rightarrow> Inl TypeError
                     | Some tr \<Rightarrow> Inr (st\<lparr>d_current_instrument := Some (append_note tr new_note)\<rparr>))) (\<lambda>st.
        Inr (st\<lparr>d_previous_note_end := max (d_previous_note_end st) (d_current_tick st + duration)\<rparr>)))))))"

text \<open>The branch \<^verbatim>\<open>if bar_pos == "Bar"\<close>.\<close>

definition CPWord_decode_bar :: "'a tokenizer_scheme \<Rightarrow> int \<Rightarrow> nat \<Rightarrow> cp_decode_state \<Rightarrow> tok list
    \<Rightarrow> error + cp_decode_state" where
  "CPWord_decode_bar self td si st compound_token =
     (let st = st\<lparr>d_current_bar := d_current_bar st + 1\<rparr>;
          st = (if 0 < d_current_bar st
                then st\<lparr>d_current_tick := d_tick_at_current_bar st + d_ticks_per_bar st\<rparr> else st);
          st = st\<lparr>d_tick_at_current_bar := d_current_tick st\<rparr> in
      if use_time_signatures self
      then ebind (ebind (field_value self compound_token ''TimeSig'') parse_token_time_signature)
             (\<lambda>(num, den).
               if num \<noteq> fst (snd (d_current_time_sig st)) \<or> den \<noteq> snd (snd (d_current_time_sig st))
               then
                 (let st = st\<lparr>d_current_time_sig := (d_current_tick st, num, den)\<rparr>;
                      st = (if si = 0
                            then st\<lparr>d_time_signature_changes :=
                                       d_time_signature_changes st @ [d_current_time_sig st]\<rparr>
                            else st);
                      st = st\<lparr>d_tick_at_last_ts_change := d_tick_at_current_bar st,
                               d_bar_at_last_ts_change := d_current_bar st\<rparr>
                  in ebind (compute_ticks_per_bar (snd (d_current_time_sig st)) td) (\<lambda>tpb.
                       Inr (st\<lparr>d_ticks_per_bar := tpb\<rparr>)))
               else Inr st)
      else Inr st)"

text \<open>The branch \<^verbatim>\<open>elif bar_pos == "Position"\<close>.\<close>

definition CPWord_decode_position :: "'a tokenizer_scheme \<Rightarrow> int \<Rightarrow> nat \<Rightarrow> cp_decode_state \<Rightarrow> tok list
    \<Rightarrow> error + cp_decode_state" where
  "CPWord_decode_position self ticks_per_sample si st compound_token =
     (let st = (if d_current_bar st = - 1 then st\<lparr>d_current_bar := 0\<rparr> else st) in
      ebind (ebind (py_nth compound_token 1) (\<lambda>t. int_of (snd t))) (\<lambda>pos.
        let st = st\<lparr>d_current_tick := d_tick_at_current_bar st + pos * ticks_per_sample\<rparr> in
        if use_tempos self \<and> si = 0
        then ebind (ebind (field_value self compound_token ''Tempo'') float_of) (\<lambda>tempo.
               ebind (py_nth (d_tempo_changes st) (- 1)) (\<lambda>last_tempo.
                 if tempo \<noteq> round2 (snd last_tempo) \<and> d_current_tick st \<noteq> fst last_tempo
                 then Inr (st\<lparr>d_tempo_changes := d_tempo_changes st @ [(d_current_tick st, tempo)]\<rparr>)
                 else Inr st))
        else Inr st))"

text \<open>The branch of a Rest token, entered when its Rest field is not \<^verbatim>\<open>None\<close>.\<close>

definition CPWord_decode_rest :: "'a tokenizer_scheme \<Rightarrow> int \<Rightarrow> cp_decode_state \<Rightarrow> val
    \<Rightarrow> error + cp_decode_state" where
  "CPWord_decode_rest self td st rest_value =
     (let st = st\<lparr>d_current_tick := max (d_previous_note_end st) (d_current_tick st)\<rparr> in
      ebind (token_duration_to_ticks self rest_value td) (\<lambda>ticks.
        let st = st\<lparr>d_current_tick := d_current_tick st + ticks\<rparr> in
        ebind (py_floordiv (d_current_tick st - d_tick_at_last_ts_change st) (d_ticks_per_bar st)) (\<lambda>q.
          let real_current_bar = d_bar_at_last_ts_change st + q in
          if d_current_bar st < real_current_bar
          then (let st = (if d_current_bar st = - 1 then st\<lparr>d_current_bar := 0\<rparr> else st);
                    st = st\<lparr>d_tick_at_current_bar := d_tick_at_current_bar st
                               + (real_current_bar - d_current_bar st) * d_ticks_per_bar st\<rparr>
                in Inr (st\<lparr>d_current_bar := real_current_bar\<rparr>))
          else Inr st)))"

text \<open>The branch \<^verbatim>\<open>elif token_family == "Metric"\<close>.\<close>

definition CPWord_decode_metric :: "'a tokenizer_scheme \<Rightarrow> int \<Rightarrow> int \<Rightarrow> nat \<Rightarrow> cp_decode_state \<Rightarrow> tok list
    \<Rightarrow> error + cp_decode_state" where
  "CPWord_decode_metric self td ticks_per_sample si st compound_token =
     ebind (py_nth compound_token 1) (\<lambda>t1.
       let bar_pos = fst t1 in
       ebind (if bar_pos = ''Bar'' then CPWord_decode_bar self td si st compound_token
              else if bar_pos = ''Position''
              then CPWord_decode_position self ticks_per_sample si st compound_token
              else if use_rests self
              then ebind (field_value self compound_token ''Rest'') (\<lambda>rest_value.
                     if rest_value \<noteq> VNone then CPWord_decode_rest self td st rest_value else Inr st)
              else Inr st) (\<lambda>st.
         Inr (st\<lparr>d_previous_note_end := max (d_previous_note_end st) (d_current_tick st)\<rparr>)))"

text \<open>One round of the loop \<^verbatim>\<open>for compound_token in seq\<close>.\<close>

definition CPWord_decode_token :: "'a tokenizer_scheme \<Rightarrow> int \<Rightarrow> int \<Rightarrow> nat \<Rightarrow> cp_decode_state \<Rightarrow> tok list
    \<Rightarrow> error + cp_decode_state" where
  "CPWord_decode_token self td ticks_per_sample si st compound_token =
     ebind (py_nth compound_token 0) (\<lambda>t0.
       let token_family = snd t0 in
       if token_family = VText ''Note'' then CPWord_decode_note self td st compound_token
       else if token_family = VText ''Metric''
       then CPWord_decode_metric self td ticks_per_sample si st compound_token
       else Inr st)"

fun CPWord_decode_seq :: "'a tokenizer_scheme \<Rightarrow> int \<Rightarrow> int \<Rightarrow> nat \<Rightarrow> cp_decode_state \<Rightarrow> tok list list
    \<Rightarrow> error + cp_decode_state" where
  "CPWord_decode_seq self td ticks_per_sample si st [] = Inr st"
| "CPWord_decode_seq self td ticks_per_sample si st (compound_token # rest) =
     ebind (CPWord_decode_token self td ticks_per_sample si st compound_token) (\<lambda>st'.
       CPWord_decode_seq self td ticks_per_sample si st' rest)"

text \<open>
  The search for the first time signature, run on the first sequence only: it reads
  the Metric tokens up to the first Bar token and stops at the first token of another family.
\<close>

fun first_time_signature :: "'a tokenizer_scheme \<Rightarrow> tok list list \<Rightarrow> error + (int \<times> int \<times> int) option" where
  "first_time_signature self [] = Inr None"
| "first_time_signature self (compound_token # rest) =
     ebind (py_nth compound_token 0) (\<lambda>t0.
       if snd t0 = VText ''Metric''
       then ebind (py_nth compound_token 1) (\<lambda>t1.
              if fst t1 = ''Bar''
              then ebind (ebind (field_value self compound_token ''TimeSig'') parse_token_time_signature)
                     (\<lambda>(num, den). Inr (Some (0, num, den)))
              else first_time_signature self rest)
       else Inr None)"

text \<open>
  The body of the loop \<^verbatim>\<open>for si, seq in enumerate(tokens)\<close>. The argument \<open>progs\<close> is
  the parameter \<^verbatim>\<open>programs\<close>.
\<close>

definition CPWord_sequence_start :: "'a tokenizer_scheme \<Rightarrow> nat \<Rightarrow> cp_decode_state \<Rightarrow> tok list list
    \<Rightarrow> error + cp_decode_state" where
  "CPWord_sequence_start self si st seq =
     (if si = 0
      then ebind (if use_time_signatures self then first_time_signature self seq else Inr None) (\<lambda>first.
             let changes = d_time_signature_changes st @ (case first of None \<Rightarrow> [] | Some ts \<Rightarrow> [ts]);
                 changes = (if length changes = 0
                            then changes @ [(0, fst TIME_SIGNATURE, snd TIME_SIGNATURE)] else changes)
             in Inr (st\<lparr>d_time_signature_changes := changes\<rparr>))
      else Inr st)"

definition CPWord_sequence_track :: "'a tokenizer_scheme \<Rightarrow> (int \<times> bool) list option \<Rightarrow> nat
    \<Rightarrow> cp_decode_state \<Rightarrow> error + cp_decode_state" where
  "CPWord_sequence_track self progs si st =
     (if \<not> one_token_stream self
      then (let st = st\<lparr>d_current_tick := 0, d_tick_at_last_ts_change := 0,
                        d_tick_at_current_bar := 0, d_current_bar := - 1,
                        d_bar_at_last_ts_change := 0, d_previous_note_end := 0\<rparr> in
            ebind (case progs of None \<Rightarrow> Inr (d_current_program st, False)
                               | Some ps \<Rightarrow> py_nth ps (int si)) (\<lambda>(current_program, is_drum).
              ebind (track_name self current_program) (\<lambda>name.
                Inr (st\<lparr>d_current_program := current_program,
                        d_current_instrument := Some \<lparr>tr_program = current_program, tr_is_drum = is_drum,
                                                       tr_name = name, tr_notes = []\<rparr>\<rparr>))))
      else Inr st)"

definition CPWord_decode_sequence :: "'a tokenizer_scheme \<Rightarrow> int \<Rightarrow> int \<Rightarrow> (int \<times> bool) list option \<Rightarrow> nat
    \<Rightarrow> cp_decode_state \<Rightarrow> tok list list \<Rightarrow> error + cp_decode_state" where
  "CPWord_decode_sequence self td ticks_per_sample progs si st seq =
     ebind (CPWord_sequence_start self si st seq) (\<lambda>st.
     ebind (py_nth (d_time_signature_changes st) 0) (\<lambda>current_time_sig.
     ebind (compute_ticks_per_bar (snd current_time_sig) td) (\<lambda>tpb.
     ebind (CPWord_sequence_track self progs si
              (st\<lparr>d_current_time_sig := current_time_sig, d_ticks_per_bar := tpb\<rparr>)) (\<lambda>st.
     ebind (CPWord_decode_seq self td ticks_per_sample si st seq) (\<lambda>st.
       if \<not> one_token_stream self
       then (case d_current_instrument st of
               None \<Rightarrow> Inl TypeError
             | Some tr \<Rightarrow> Inr (st\<lparr>d_midi_tracks := d_midi_tracks st @ [tr]\<rparr>))
       else Inr st)))))"

fun CPWord_decode_sequences :: "'a tokenizer_scheme \<Rightarrow> int \<Rightarrow> int \<Rightarrow> (int \<times> bool) list option \<Rightarrow> nat
    \<Rightarrow> cp_decode_state \<Rightarrow> tok list list list \<Rightarrow> error + cp_decode_state" where
  "CPWord_decode_sequences self td ticks_per_sample progs si st [] = Inr st"
| "CPWord_decode_sequences self td ticks_per_sample progs si st (seq # rest) =
     ebind (CPWord_decode_sequence self td ticks_per_sample progs si st seq) (\<lambda>st'.
       CPWord_decode_sequences self td ticks_per_sample progs (Suc si) st' rest)"

text \<open>
  The argument \<^verbatim>\<open>tokens\<close>: one token sequence when \<^verbatim>\<open>one_token_stream\<close> is set, a
  list of them otherwise. The other shape fails at \<^verbatim>\<open>tokens[i].tokens\<close>.
\<close>

datatype tokens_arg = OneSeq "tok list list" | ManySeq "tok list list list"

definition unsqueeze :: "'a tokenizer_scheme \<Rightarrow> tokens_arg \<Rightarrow> error + tok list list list" where
  "unsqueeze self tokens =
     (case tokens of
        OneSeq seq \<Rightarrow> if one_token_stream self then Inr [seq] else Inl TypeError
      | ManySeq seqs \<Rightarrow> if one_token_stream self then Inl TypeError else Inr seqs)"

text \<open>The tempo list after the loop: the mocked first entry goes, a tempo at tick 0 is ensured.\<close>

definition final_tempo_changes :: "'a tokenizer_scheme \<Rightarrow> (int \<times> rat) list \<Rightarrow> (int \<times> rat) list" where
  "final_tempo_changes self tempo_changes =
     (case tl tempo_changes of
        [] \<Rightarrow> [(0, default_tempo self)]
      | t # ts \<Rightarrow>
          if fst t \<noteq> 0 \<and> round2 (snd t) \<noteq> default_tempo self then (0, default_tempo self) # t # ts
          else if round2 (snd t) = default_tempo self then (0, snd t) # ts
          else t # ts)"

definition CPWord_initial_state :: cp_decode_state where
  "CPWord_initial_state =
     \<lparr>d_tracks = [], d_tempo_changes = [(- 1, - 1)], d_time_signature_changes = [],
      d_current_tick = 0, d_tick_at_last_ts_change = 0, d_tick_at_current_bar = 0,
      d_current_bar = - 1, d_bar_at_last_ts_change = 0, d_current_program = 0,
      d_current_instrument = None, d_previous_note_end = 0, d_current_time_sig = (0, 4, 4),
      d_ticks_per_bar = 0, d_midi_tracks = []\<rparr>"

text \<open>
  \<^verbatim>\<open>CPWord._tokens_to_midi\<close>. In the initial state \<open>d_current_time_sig\<close> and
  \<open>d_ticks_per_bar\<close> stand for variables not yet assigned: both are set at the start of
  every sequence, before any token is read.
\<close>

definition CPWord_tokens_to_midi :: "'a tokenizer_scheme \<Rightarrow> tokens_arg \<Rightarrow> (int \<times> bool) list option
    \<Rightarrow> int option \<Rightarrow> error + score" where
  "CPWord_tokens_to_midi self tokens progs time_division_arg =
     (let td = (case time_division_arg of None \<Rightarrow> time_division self | Some t \<Rightarrow> t) in
      ebind (unsqueeze self tokens) (\<lambda>seqs.
        if beat_res_max self = 0 then Inl ZeroDivisionError
        else if td mod beat_res_max self \<noteq> 0 then Inl ValueError
        else
          ebind (CPWord_decode_sequences self td (td div beat_res_max self) progs 0
                   CPWord_initial_state seqs) (\<lambda>st.
            Inr \<lparr>sc_ticks_per_quarter = td,
                 sc_tracks = (if one_token_stream self then map snd (d_tracks st) else d_midi_tracks st),
                 sc_tempos = final_tempo_changes self (d_tempo_changes st),
                 sc_time_signatures = d_time_signature_changes st\<rparr>)))"

section \<open>MuMIDI: decoding\<close>

text \<open>
  The state of the loop of \<^verbatim>\<open>MuMIDI._tokens_to_midi\<close>. \<open>m_current_track\<close> is \<open>None\<close>
  while \<^verbatim>\<open>current_track\<close> still holds its initial integer 0, which is no key of
  \<^verbatim>\<open>tracks\<close> (the keys are the value texts of Program tokens).
\<close>

record mu_decode_state =
  m_tracks :: "(val \<times> midi_note list) list"
  m_tempos :: "(int \<times> rat) list"
  m_current_tick :: int
  m_current_bar :: int
  m_current_track :: "val option"

text \<open>The branch of a Pitch or DrumPitch token; \<open>None\<close> is the \<^verbatim>\<open>continue\<close>.\<close>

definition MuMIDI_decode_note :: "'a tokenizer_scheme \<Rightarrow> int \<Rightarrow> mu_decode_state \<Rightarrow> tok list \<Rightarrow> val
    \<Rightarrow> error + mu_decode_state option" where
  "MuMIDI_decode_note self td st time_step tok_val =
     ebind (py_nth time_step (- 2)) (\<lambda>tv.
     ebind (py_nth time_step (- 1)) (\<lambda>tdur.
       let vel = snd tv; duration = snd tdur in
       if list_ex (\<lambda>v. v = VNone) [vel, duration] then Inr None
       else
         ebind (int_of tok_val) (\<lambda>pitch.
         ebind (int_of vel) (\<lambda>vel.
         ebind (token_duration_to_ticks self duration td) (\<lambda>duration.
           case m_current_track st of
             None \<Rightarrow> Inl KeyError
           | Some key \<Rightarrow>
               if key \<in> fst ` set (m_tracks st)
               then Inr (Some (st\<lparr>m_tracks :=
                      map (\<lambda>(k, ns). if k = key then (k, ns @ [Note (m_current_tick st) duration pitch vel])
                                      else (k, ns)) (m_tracks st)\<rparr>))
               else Inl KeyError)))))"

text \<open>One round of the loop \<^verbatim>\<open>for time_step in tokens.tokens\<close>.\<close>

definition MuMIDI_decode_step :: "'a tokenizer_scheme \<Rightarrow> int \<Rightarrow> int \<Rightarrow> mu_decode_state \<Rightarrow> tok list
    \<Rightarrow> error + mu_decode_state" where
  "MuMIDI_decode_step self td ticks_per_sample st time_step =
     ebind (py_nth time_step 0) (\<lambda>(tok_type, tok_val).
       ebind
         (if tok_type = ''Bar''
          then (let bar = m_current_bar st + 1
                in Inr (Some (st\<lparr>m_current_bar := bar, m_current_tick := bar * td * 4\<rparr>)))
          else if tok_type = ''Position''
          then (let bar = (if m_current_bar st = - 1 then 0 else m_current_bar st) in
                ebind (int_of tok_val) (\<lambda>pos.
                  Inr (Some (st\<lparr>m_current_bar := bar,
                                m_current_tick := bar * td * 4 + pos * ticks_per_sample\<rparr>))))
          else if tok_type = ''Program''
          then Inr (Some (st\<lparr>m_current_track := Some tok_val,
                             m_tracks := (if tok_val \<in> fst ` set (m_tracks st) then m_tracks st
                                          else m_tracks st @ [(tok_val, [])])\<rparr>))
          else if tok_type = ''Pitch'' \<or> tok_type = ''DrumPitch''
          then MuMIDI_decode_note self td st time_step tok_val
          else Inr (Some st))
         (\<lambda>r. case r of
                 None \<Rightarrow> Inr st
               | Some st \<Rightarrow>
                   if use_tempos self
                   then ebind (ebind (py_nth time_step 3) (\<lambda>t. float_of (snd t))) (\<lambda>tempo_val.
                          ebind (py_nth (m_tempos st) (- 1)) (\<lambda>last_tempo.
                            if tempo_val \<noteq> snd last_tempo
                            then Inr (st\<lparr>m_tempos := m_tempos st @ [(m_current_tick st, tempo_val)]\<rparr>)
                            else Inr st))
                   else Inr st))"

fun MuMIDI_decode_loop :: "'a tokenizer_scheme \<Rightarrow> int \<Rightarrow> int \<Rightarrow> mu_decode_state \<Rightarrow> tok list list
    \<Rightarrow> error + mu_decode_state" where
  "MuMIDI_decode_loop self td ticks_per_sample st [] = Inr st"
| "MuMIDI_decode_loop self td ticks_per_sample st (time_step # rest) =
     ebind (MuMIDI_decode_step self td ticks_per_sample st time_step) (\<lambda>st'.
       MuMIDI_decode_loop self td ticks_per_sample st' rest)"

text \<open>The tracks of the result, one per key of \<^verbatim>\<open>tracks\<close>, in insertion order.\<close>

fun MuMIDI_make_tracks :: "'a tokenizer_scheme \<Rightarrow> (val \<times> midi_note list) list \<Rightarrow> error + track list" where
  "MuMIDI_make_tracks self [] = Inr []"
| "MuMIDI_make_tracks self ((program, notes) # rest) =
     ebind (int_of program) (\<lambda>p.
       ebind (if p = - 1
              then Inr \<lparr>tr_program = 0, tr_is_drum = True, tr_name = ''Drums'', tr_notes = notes\<rparr>
              else ebind (py_nth (midi_instruments self) p) (\<lambda>name.
                     Inr \<lparr>tr_program = p, tr_is_drum = False, tr_name = name, tr_notes = notes\<rparr>)) (\<lambda>tr.
         ebind (MuMIDI_make_tracks self rest) (\<lambda>trs. Inr (tr # trs))))"

definition MuMIDI_tokens_to_midi :: "'a tokenizer_scheme \<Rightarrow> tok list list \<Rightarrow> int option \<Rightarrow> error + score" where
  "MuMIDI_tokens_to_midi self tokens time_division_arg =
     (let td = (case time_division_arg of None \<Rightarrow> time_division self | Some t \<Rightarrow> t) in
      if beat_res_max self = 0 then Inl ZeroDivisionError
      else if td mod beat_res_max self \<noteq> 0 then Inl ValueError
      else
        ebind (if use_tempos self \<and> 0 < length tokens
               then ebind (py_nth tokens 0) (\<lambda>first. ebind (py_nth first 3) (\<lambda>t. float_of (snd t)))
               else Inr (default_tempo self)) (\<lambda>first_tempo.
          ebind (MuMIDI_decode_loop self td (td div beat_res_max self)
                   \<lparr>m_tracks = [], m_tempos = [(0, first_tempo)], m_current_tick = 0,
                    m_current_bar = - 1, m_current_track = None\<rparr> tokens) (\<lambda>st.
            ebind (MuMIDI_make_tracks self (m_tracks st)) (\<lambda>trs.
              Inr \<lparr>sc_ticks_per_quarter = td, sc_tracks = trs, sc_tempos = m_tempos st,
                   sc_time_signatures = []\<rparr>))))"

section \<open>CPWord: encoding\<close>

text \<open>
  The index of the entry closest to a target, the first one among equals, as
  \<^verbatim>\<open>np.abs(table - target).argmin()\<close> computes it; an empty table raises.
\<close>

fun closest_from :: "'a::linordered_idom list \<Rightarrow> 'a \<Rightarrow> nat \<Rightarrow> 'a \<Rightarrow> nat \<Rightarrow> nat" where
  "closest_from [] target best best_distance i = best"
| "closest_from (x # xs) target best best_distance i =
     (if \<bar>x - target\<bar> < best_distance then closest_from xs target i \<bar>x - target\<bar> (Suc i)
      else closest_from xs target best best_distance (Suc i))"

definition closest_index :: "'a::linordered_idom list \<Rightarrow> 'a \<Rightarrow> error + nat" where
  "closest_index table target =
     (case table of [] \<Rightarrow> Inl ValueError
      | x # xs \<Rightarrow> Inr (closest_from xs target 0 \<bar>x - target\<bar> 1))"

text \<open>\<^verbatim>\<open>list(map(int, event.value.split("/")))\<close> on the value of a TimeSig event.\<close>

fun split_time_sig :: "val \<Rightarrow> error + int \<times> int" where
  "split_time_sig (VTimeSig n d) = Inr (n, d)"
| "split_time_sig _ = Inl ValueError"

text \<open>
  The arguments of \<^verbatim>\<open>CPWord.__create_cp_token\<close>; \<open>cp_args\<close> gives the defaults of the
  keyword arguments.
\<close>

record cp_token_args =
  a_time :: int
  a_bar :: bool
  a_pos :: "int option"
  a_pitch :: "val option"
  a_vel :: "val option"
  a_dur :: "val option"
  a_chord :: "val option"
  a_rest :: "val option"
  a_tempo :: "val option"
  a_time_signature :: "val option"
  a_program :: "val option"
  a_desc :: desc

definition cp_args :: "int \<Rightarrow> cp_token_args" where
  "cp_args t =
     \<lparr>a_time = t, a_bar = False, a_pos = None, a_pitch = None, a_vel = None, a_dur = None,
      a_chord = None, a_rest = None, a_tempo = None, a_time_signature = None, a_program = None,
      a_desc = DLabel []\<rparr>"

definition create_event :: "cp_token_args \<Rightarrow> string \<Rightarrow> val \<Rightarrow> event" where
  "create_event args ty v = \<lparr>ev_type = ty, ev_value = v, ev_time = a_time args, ev_desc = a_desc args\<rparr>"

text \<open>\<^verbatim>\<open>cp_token[self.vocab_types_idx[name]] = create_event(name, v)\<close>.\<close>

definition set_field :: "'a tokenizer_scheme \<Rightarrow> cp_token_args \<Rightarrow> event list \<Rightarrow> string \<Rightarrow> val
    \<Rightarrow> error + event list" where
  "set_field self args cp_token name v =
     ebind (dict_get (vocab_types_idx self) name) (\<lambda>i.
       if 0 \<le> i \<and> i < int (length cp_token)
       then Inr (cp_token[nat i := create_event args name v])
       else Inl IndexError)"

text \<open>An optional argument: the field is set when the argument is given.\<close>

definition set_optional :: "'a tokenizer_scheme \<Rightarrow> cp_token_args \<Rightarrow> event list \<Rightarrow> string \<Rightarrow> val option
    \<Rightarrow> error + event list" where
  "set_optional self args cp_token name v =
     (case v of None \<Rightarrow> Inr cp_token | Some x \<Rightarrow> set_field self args cp_token name x)"

definition number_of_additional_fields :: "'a tokenizer_scheme \<Rightarrow> nat" where
  "number_of_additional_fields self =
     length (filter (\<lambda>b. b) [use_programs self, use_chords self, use_rests self, use_tempos self,
                              use_time_signatures self])"

text \<open>
  \<^verbatim>\<open>CPWord.__create_cp_token\<close>. A velocity or duration that is not given stands as the
  Python \<^verbatim>\<open>None\<close>, whose text in a token is \<^verbatim>\<open>None\<close>.
\<close>

definition create_cp_token :: "'a tokenizer_scheme \<Rightarrow> cp_token_args \<Rightarrow> error + event list" where
  "create_cp_token self args =
     (let cp_token = create_event args ''Family'' (VText ''Metric'')
                     # replicate (4 + number_of_additional_fields self) (create_event args ''Ignore'' VNone) in
      if a_bar args
      then set_optional self args (cp_token[1 := create_event args ''Bar'' VNone]) ''TimeSig''
             (a_time_signature args)
      else case a_pos args of
        Some pos \<Rightarrow>
          ebind (set_optional self args (cp_token[1 := create_event args ''Position'' (VInt pos)])
                   ''Chord'' (a_chord args)) (\<lambda>cp_token.
            set_optional self args cp_token ''Tempo'' (a_tempo args))
      | None \<Rightarrow>
          (case a_rest args of
             Some rest \<Rightarrow> set_field self args cp_token ''Rest'' rest
           | None \<Rightarrow>
               (case a_pitch args of
                  Some pitch \<Rightarrow>
                    set_optional self args
                      (cp_token[0 := create_event args ''Family'' (VText ''Note''),
                                2 := create_event args ''Pitch'' pitch,
                                3 := create_event args ''Velocity'' (case a_vel args of None \<Rightarrow> VNone | Some v \<Rightarrow> v),
                                4 := create_event args ''Duration'' (case a_dur args of None \<Rightarrow> VNone | Some d \<Rightarrow> d)])
                      ''Program'' (a_program args)
                | None \<Rightarrow> Inr cp_token)))"

record encode_state =
  e_all_events :: "event list list"
  e_current_bar :: int
  e_bar_at_last_ts_change :: int
  e_previous_tick :: int
  e_previous_note_end :: int
  e_tick_at_last_ts_change :: int
  e_tick_at_current_bar :: int
  e_current_time_sig :: "int \<times> int"
  e_current_tempo :: val
  e_current_program :: "val option"
  e_ticks_per_bar :: int

text \<open>The types at which the two searches before the main loop give up.\<close>

definition note_types :: "string list" where
  "note_types = [''Pitch'', ''Velocity'', ''Duration'', ''PitchBend'', ''Pedal'']"

text \<open>The search for a first TimeSig event that comes before every note event.\<close>

fun first_time_sig_event :: "event list \<Rightarrow> event option" where
  "first_time_sig_event [] = None"
| "first_time_sig_event (ev # rest) =
     (if ev_type ev = ''TimeSig'' then Some ev
      else if ev_type ev \<in> set note_types then None
      else first_time_sig_event rest)"

fun first_tempo_event :: "event list \<Rightarrow> event option" where
  "first_tempo_event [] = None"
| "first_tempo_event (ev # rest) =
     (if ev_type ev = ''Tempo'' then Some ev
      else if ev_type ev \<in> set note_types then None
      else first_tempo_event rest)"

text \<open>The state before the main loop of \<^verbatim>\<open>CPWord._add_time_events\<close>.\<close>

definition CPWord_encode_start :: "'a tokenizer_scheme \<Rightarrow> event list \<Rightarrow> error + encode_state" where
  "CPWord_encode_start self events =
     ebind (if log_tempos self
            then ebind (closest_index (tempos self) (default_tempo self)) (\<lambda>i. Inr (tempos self ! i))
            else Inr (default_tempo self)) (\<lambda>tempo.
     ebind (compute_ticks_per_bar TIME_SIGNATURE (time_division self)) (\<lambda>tpb.
     ebind (case (if use_time_signatures self then first_time_sig_event events else None) of
              None \<Rightarrow> Inr (TIME_SIGNATURE, tpb)
            | Some ev \<Rightarrow>
                ebind (split_time_sig (ev_value ev)) (\<lambda>ts.
                  ebind (compute_ticks_per_bar ts (time_division self)) (\<lambda>tpb. Inr (ts, tpb))))
       (\<lambda>(time_sig, tpb).
         Inr \<lparr>e_all_events = [], e_current_bar = - 1, e_bar_at_last_ts_change = 0,
              e_previous_tick = - 1, e_previous_note_end = 0, e_tick_at_last_ts_change = 0,
              e_tick_at_current_bar = 0, e_current_time_sig = time_sig,
              e_current_tempo =
                (case (if use_tempos self then first_tempo_event events else None) of
                   None \<Rightarrow> VFloat tempo | Some ev \<Rightarrow> ev_value ev),
              e_current_program = None, e_ticks_per_bar = tpb\<rparr>)))"

text \<open>The loop that adds the Rest tokens and moves \<^verbatim>\<open>previous_tick\<close> along.\<close>

fun rest_tokens :: "'a tokenizer_scheme \<Rightarrow> int \<Rightarrow> int \<Rightarrow> ((int \<times> int \<times> int) \<times> int) list
    \<Rightarrow> error + event list list \<times> int" where
  "rest_tokens self t previous_tick [] = Inr ([], previous_tick)"
| "rest_tokens self t previous_tick (((b, s, r), dur_ticks) # later) =
     ebind (create_cp_token self
              ((cp_args previous_tick)\<lparr>a_rest := Some (VDur b s r),
                                        a_desc := DTicks (t - previous_tick)\<rparr>)) (\<lambda>token.
       ebind (rest_tokens self t (previous_tick + dur_ticks) later) (\<lambda>(tokens, tick).
         Inr (token # tokens, tick)))"

text \<open>The part marked \<^verbatim>\<open># (Rest)\<close> of the loop body, for an event at tick \<open>t\<close>.\<close>

definition CPWord_encode_rests :: "'a tokenizer_scheme \<Rightarrow> encode_state \<Rightarrow> int \<Rightarrow> error + encode_state" where
  "CPWord_encode_rests self st t =
     (if use_rests self \<and> min_rest self \<le> t - e_previous_note_end st
      then
        (let previous_tick = e_previous_note_end st;
             rest_values = ticks_to_duration_tokens self (t - previous_tick) in
         ebind (rest_tokens self t previous_tick (zip (fst rest_values) (snd rest_values)))
           (\<lambda>(tokens, previous_tick).
             let st = st\<lparr>e_all_events := e_all_events st @ tokens, e_previous_tick := previous_tick\<rparr> in
             ebind (py_floordiv (previous_tick - e_tick_at_last_ts_change st) (e_ticks_per_bar st)) (\<lambda>q.
               let real_current_bar = e_bar_at_last_ts_change st + q in
               if e_current_bar st < real_current_bar
               then (let st = (if e_current_bar st = - 1 then st\<lparr>e_current_bar := 0\<rparr> else st);
                         st = st\<lparr>e_tick_at_current_bar := e_tick_at_current_bar st
                                    + (real_current_bar - e_current_bar st) * e_ticks_per_bar st\<rparr>
                     in Inr (st\<lparr>e_current_bar := real_current_bar\<rparr>))
               else Inr st)))
      else Inr st)"

text \<open>The Bar tokens of rounds \<open>i\<close>, \<open>i + 1\<close>, ... of \<^verbatim>\<open>for i in range(num_new_bars)\<close>.\<close>

fun bar_tokens :: "'a tokenizer_scheme \<Rightarrow> encode_state \<Rightarrow> event \<Rightarrow> int \<Rightarrow> val option \<Rightarrow> int list
    \<Rightarrow> error + event list list" where
  "bar_tokens self st ev num_new_bars time_sig_arg [] = Inr []"
| "bar_tokens self st ev num_new_bars time_sig_arg (i # later) =
     ebind (if i = num_new_bars - 1 \<and> ev_type ev = ''TimeSig''
            then ebind (split_time_sig (ev_value ev)) (\<lambda>(n, d). Inr (Some (VTimeSig n d)))
            else Inr time_sig_arg) (\<lambda>time_sig_arg.
       ebind (create_cp_token self
                ((cp_args ((e_current_bar st + i + 1) * e_ticks_per_bar st))
                   \<lparr>a_bar := True, a_desc := DLabel ''Bar'', a_time_signature := time_sig_arg\<rparr>)) (\<lambda>token.
         ebind (bar_tokens self st ev num_new_bars time_sig_arg later) (\<lambda>tokens.
           Inr (token # tokens))))"

text \<open>The part marked \<^verbatim>\<open># Bar\<close>.\<close>

definition CPWord_encode_bars :: "'a tokenizer_scheme \<Rightarrow> encode_state \<Rightarrow> event \<Rightarrow> error + encode_state" where
  "CPWord_encode_bars self st ev =
     ebind (py_floordiv (ev_time ev - e_tick_at_last_ts_change st) (e_ticks_per_bar st)) (\<lambda>q.
       let num_new_bars = e_bar_at_last_ts_change st + q - e_current_bar st in
       if 1 \<le> num_new_bars
       then
         (let time_sig_arg =
                (if use_time_signatures self
                 then Some (VTimeSig (fst (e_current_time_sig st)) (snd (e_current_time_sig st)))
                 else None) in
          ebind (bar_tokens self st ev num_new_bars time_sig_arg [0 .. num_new_bars - 1]) (\<lambda>tokens.
            let st = st\<lparr>e_all_events := e_all_events st @ tokens,
                        e_current_bar := e_current_bar st + num_new_bars\<rparr>
            in Inr (st\<lparr>e_tick_at_current_bar := e_tick_at_last_ts_change st
                          + (e_current_bar st - e_bar_at_last_ts_change st) * e_ticks_per_bar st\<rparr>)))
       else Inr st)"

text \<open>The part marked \<^verbatim>\<open># Position\<close>.\<close>

definition CPWord_encode_position :: "'a tokenizer_scheme \<Rightarrow> encode_state \<Rightarrow> event \<Rightarrow> error + encode_state" where
  "CPWord_encode_position self st ev =
     (if ev_type ev \<noteq> ''TimeSig''
      then
        (let pos_index = ev_time ev - e_tick_at_current_bar st in
         ebind (create_cp_token self
                  ((cp_args (ev_time ev))
                     \<lparr>a_pos := Some pos_index,
                      a_chord := (if ev_type ev = ''Chord'' then Some (ev_value ev) else None),
                      a_tempo := (if use_tempos self then Some (e_current_tempo st) else None),
                      a_desc := DLabel ''Position''\<rparr>)) (\<lambda>token.
           Inr (st\<lparr>e_all_events := e_all_events st @ [token]\<rparr>)))
      else Inr st)"

text \<open>The body of \<^verbatim>\<open>if event.time != previous_tick\<close>.\<close>

definition CPWord_encode_time :: "'a tokenizer_scheme \<Rightarrow> encode_state \<Rightarrow> event \<Rightarrow> error + encode_state" where
  "CPWord_encode_time self st ev =
     (if ev_time ev \<noteq> e_previous_tick st
      then ebind (CPWord_encode_rests self st (ev_time ev)) (\<lambda>st.
             ebind (CPWord_encode_bars self st ev) (\<lambda>st.
               ebind (CPWord_encode_position self st ev) (\<lambda>st.
                 Inr (st\<lparr>e_previous_tick := ev_time ev\<rparr>))))
      else Inr st)"

text \<open>The update of the grid on a TimeSig event, after the time was adjusted.\<close>

definition CPWord_encode_time_sig :: "'a tokenizer_scheme \<Rightarrow> encode_state \<Rightarrow> event \<Rightarrow> error + encode_state" where
  "CPWord_encode_time_sig self st ev =
     (if ev_type ev = ''TimeSig''
      then ebind (split_time_sig (ev_value ev)) (\<lambda>time_sig.
             ebind (py_floordiv (ev_time ev - e_tick_at_last_ts_change st) (e_ticks_per_bar st)) (\<lambda>q.
               ebind (compute_ticks_per_bar time_sig (time_division self)) (\<lambda>tpb.
                 Inr (st\<lparr>e_current_time_sig := time_sig,
                         e_bar_at_last_ts_change := e_bar_at_last_ts_change st + q,
                         e_tick_at_last_ts_change := ev_time ev,
                         e_ticks_per_bar := tpb,
                         e_previous_tick := e_previous_tick st - 1\<rparr>))))
      else Inr st)"

text \<open>
  The conversion of the event into a Note token; \<open>following\<close> are the events after it,
  so that \<^verbatim>\<open>e + 2 < len(events)\<close> says that there are two of them at least.
\<close>

definition CPWord_encode_note :: "'a tokenizer_scheme \<Rightarrow> encode_state \<Rightarrow> event \<Rightarrow> event list
    \<Rightarrow> error + encode_state" where
  "CPWord_encode_note self st ev following =
     (if ev_type ev = ''Pitch'' \<and> 2 \<le> length following
      then ebind (create_cp_token self
                    ((cp_args (ev_time ev))
                       \<lparr>a_pitch := Some (ev_value ev),
                        a_vel := Some (ev_value (following ! 0)),
                        a_dur := Some (ev_value (following ! 1)),
                        a_program := e_current_program st\<rparr>)) (\<lambda>token.
             case ev_desc ev of
               DEnd note_end \<Rightarrow>
                 Inr (st\<lparr>e_all_events := e_all_events st @ [token],
                         e_previous_note_end := max (e_previous_note_end st) note_end\<rparr>)
             | _ \<Rightarrow> Inl TypeError)
      else if ev_type ev \<in> set [''Program'', ''Tempo'', ''TimeSig'', ''Chord'']
      then Inr (st\<lparr>e_previous_note_end := max (e_previous_note_end st) (ev_time ev)\<rparr>)
      else Inr st)"

text \<open>One round of the main loop \<^verbatim>\<open>for e, event in enumerate(events)\<close>.\<close>

definition CPWord_encode_step :: "'a tokenizer_scheme \<Rightarrow> encode_state \<Rightarrow> event \<Rightarrow> event list
    \<Rightarrow> error + encode_state" where
  "CPWord_encode_step self st ev following =
     (if ev_type ev = ''Program'' then Inr (st\<lparr>e_current_program := Some (ev_value ev)\<rparr>)
      else
        (let st = (if ev_type ev = ''Tempo'' then st\<lparr>e_current_tempo := ev_value ev\<rparr> else st) in
         ebind (CPWord_encode_time self st ev) (\<lambda>st.
           ebind (CPWord_encode_time_sig self st ev) (\<lambda>st.
             CPWord_encode_note self st ev following))))"

fun CPWord_encode_loop :: "'a tokenizer_scheme \<Rightarrow> encode_state \<Rightarrow> event list \<Rightarrow> error + encode_state" where
  "CPWord_encode_loop self st [] = Inr st"
| "CPWord_encode_loop self st (ev # following) =
     ebind (CPWord_encode_step self st ev following) (\<lambda>st'. CPWord_encode_loop self st' following)"

text \<open>\<^verbatim>\<open>CPWord._add_time_events\<close>.\<close>

definition CPWord_add_time_events :: "'a tokenizer_scheme \<Rightarrow> event list \<Rightarrow> error + event list list" where
  "CPWord_add_time_events self events =
     ebind (CPWord_encode_start self events) (\<lambda>st.
       ebind (CPWord_encode_loop self st events) (\<lambda>st. Inr (e_all_events st)))"

text \<open>The token strings of a compound token: \<^verbatim>\<open>str(event)\<close> is \<^verbatim>\<open>Type_Value\<close>.\<close>

definition token_strings :: "event list \<Rightarrow> tok list" where
  "token_strings cp_token = map (\<lambda>e. (ev_type e, ev_value e)) cp_token"

section \<open>MuMIDI: encoding\<close>

text \<open>
  Modelled from the spec: \<^verbatim>\<open>add_to_vocab\<close> of the base class appends the token to the
  sub-vocabulary of the given index; the vocabulary grows by appending and existing
  entries keep their index.
\<close>

definition add_to_vocab :: "'a tokenizer_scheme \<Rightarrow> tok \<Rightarrow> nat \<Rightarrow> error + 'a tokenizer_scheme" where
  "add_to_vocab self token vocab_idx =
     (if vocab_idx < length (vocab self)
      then Inr (self\<lparr>vocab := (vocab self)[vocab_idx := vocab self ! vocab_idx @ [token]]\<rparr>)
      else Inl IndexError)"

text \<open>\<^verbatim>\<open>ceil(a / b)\<close> on integers.\<close>

definition py_ceil_div :: "int \<Rightarrow> int \<Rightarrow> error + int" where
  "py_ceil_div a b = (if b = 0 then Inl ZeroDivisionError else Inr (- ((- a) div b)))"

text \<open>The loop \<^verbatim>\<open>for i in range(max_bar_embedding, num_bars)\<close> over the indices given.\<close>

fun add_bar_embeddings :: "'a tokenizer_scheme \<Rightarrow> int list \<Rightarrow> error + 'a tokenizer_scheme" where
  "add_bar_embeddings self [] = Inr self"
| "add_bar_embeddings self (i # rest) =
     ebind (add_to_vocab self (''BarPosEnc'', VInt i) 1) (\<lambda>self'. add_bar_embeddings self' rest)"

text \<open>
  The first part of \<^verbatim>\<open>MuMIDI._midi_to_tokens\<close>, which may extend the vocabulary;
  \<open>max_tick\<close> is the value of \<^verbatim>\<open>get_midi_max_tick(midi)\<close>.
\<close>

definition MuMIDI_check_bar_embedding :: "'a tokenizer_scheme \<Rightarrow> int \<Rightarrow> score
    \<Rightarrow> error + 'a tokenizer_scheme" where
  "MuMIDI_check_bar_embedding self max_tick midi =
     ebind (py_ceil_div max_tick (sc_ticks_per_quarter midi * 4)) (\<lambda>num_bars.
       if max_bar_embedding self < num_bars
       then ebind (add_bar_embeddings self [max_bar_embedding self .. num_bars - 1]) (\<lambda>self'.
              Inr (self'\<lparr>max_bar_embedding := num_bars\<rparr>))
       else Inr self)"

text \<open>
  \<^verbatim>\<open>MuMIDI._track_to_tokens\<close>: per note, the Event of the pitch and the two tokens that
  follow it; a chord is an Event alone. The description of the Event is the program of the
  track, or -1 for drums.
\<close>

type_synonym note_token = "event \<times> tok list"

fun notes_to_tokens :: "'a tokenizer_scheme \<Rightarrow> track \<Rightarrow> midi_note list \<Rightarrow> error + note_token list" where
  "notes_to_tokens self tr [] = Inr []"
| "notes_to_tokens self tr (n # rest) =
     ebind (closest_index (durations_ticks self) (n_duration n)) (\<lambda>dur_idx.
       ebind (py_nth (durations self) (int dur_idx)) (\<lambda>(b, s, r).
         ebind (notes_to_tokens self tr rest) (\<lambda>tokens.
           Inr ((\<lparr>ev_type = (if \<not> tr_is_drum tr then ''Pitch'' else ''DrumPitch''),
                   ev_value = VInt (n_pitch n), ev_time = n_time n,
                   ev_desc = DProgram (if \<not> tr_is_drum tr then tr_program tr else - 1)\<rparr>,
                 [(''Velocity'', VInt (n_velocity n)), (''Duration'', VDur b s r)]) # tokens))))"

definition MuMIDI_track_to_tokens :: "'a tokenizer_scheme \<Rightarrow> track \<Rightarrow> int \<Rightarrow> error + note_token list" where
  "MuMIDI_track_to_tokens self tr td =
     ebind (notes_to_tokens self tr (tr_notes tr)) (\<lambda>tokens.
       if use_chords self \<and> \<not> tr_is_drum tr
       then Inr (map (\<lambda>c. (c\<lparr>ev_desc := DProgram (tr_program tr)\<rparr>, []))
                   (detect_chords self (tr_notes tr) td) @ tokens)
       else Inr tokens)"

fun tracks_to_tokens :: "'a tokenizer_scheme \<Rightarrow> int \<Rightarrow> track list \<Rightarrow> error + note_token list" where
  "tracks_to_tokens self td [] = Inr []"
| "tracks_to_tokens self td (tr # rest) =
     ebind (if tr_program tr \<in> set (programs self) then MuMIDI_track_to_tokens self tr td else Inr [])
       (\<lambda>tokens. ebind (tracks_to_tokens self td rest) (\<lambda>more_tokens. Inr (tokens @ more_tokens)))"

text \<open>
  The key of \<^verbatim>\<open>note_tokens.sort\<close>: the time and the description of the Event, which is
  a program for every Event that \<open>MuMIDI_track_to_tokens\<close> builds.
\<close>

definition desc_key :: "desc \<Rightarrow> int" where
  "desc_key d = (case d of DProgram p \<Rightarrow> p | _ \<Rightarrow> 0)"

definition sort_key_of :: "note_token \<Rightarrow> int \<times> int" where
  "sort_key_of x = (ev_time (fst x), desc_key (ev_desc (fst x)))"

record mu_encode_state =
  k_tokens :: "tok list list"
  k_current_tick :: int
  k_current_bar :: int
  k_current_pos :: int
  k_current_track :: int
  k_current_tempo_idx :: nat
  k_current_tempo :: rat

text \<open>The loop over the tempo changes that come after the current one.\<close>

fun tempo_scan :: "(int \<times> rat) list \<Rightarrow> int \<Rightarrow> rat \<Rightarrow> nat \<Rightarrow> rat \<times> nat" where
  "tempo_scan [] t current_tempo idx = (current_tempo, idx)"
| "tempo_scan (tempo_change # rest) t current_tempo idx =
     (if fst tempo_change \<le> t then tempo_scan rest t (round2 (snd tempo_change)) (Suc idx)
      else (current_tempo, idx))"

text \<open>Python's \<^verbatim>\<open>int(x)\<close> on a float: the fraction is cut off.\<close>

definition truncate :: "rat \<Rightarrow> int" where
  "truncate q = (if 0 \<le> q then \<lfloor>q\<rfloor> else \<lceil>q\<rceil>)"

text \<open>A token list, with the tempo at the end when tempos are used.\<close>

definition with_tempo :: "'a tokenizer_scheme \<Rightarrow> rat \<Rightarrow> tok list \<Rightarrow> tok list" where
  "with_tempo self tempo token = (if use_tempos self then token @ [(''Tempo'', VFloat tempo)] else token)"

definition mu_bar_token :: "'a tokenizer_scheme \<Rightarrow> rat \<Rightarrow> int \<Rightarrow> tok list" where
  "mu_bar_token self tempo bar =
     with_tempo self tempo [(''Bar'', VNone), (''BarPosEnc'', VInt bar), (''PositionPosEnc'', VNone)]"

text \<open>The part \<^verbatim>\<open>if note_token[0].time != current_tick\<close> of the loop body.\<close>

definition MuMIDI_encode_time :: "'a tokenizer_scheme \<Rightarrow> rat \<Rightarrow> int \<Rightarrow> mu_encode_state \<Rightarrow> int
    \<Rightarrow> error + mu_encode_state" where
  "MuMIDI_encode_time self ticks_per_sample ticks_per_bar st t =
     (if t \<noteq> k_current_tick st
      then
        (if ticks_per_bar = 0 \<or> ticks_per_sample = 0 then Inl ZeroDivisionError
         else
           (let pos_index = truncate (of_int (t mod ticks_per_bar) / ticks_per_sample);
                st = st\<lparr>k_current_tick := t, k_current_pos := pos_index, k_current_track := - 2\<rparr>;
                st = (if k_current_bar st < t div ticks_per_bar
                      then (let num_new_bars = t div ticks_per_bar - k_current_bar st
                            in st\<lparr>k_tokens := k_tokens st
                                     @ map (\<lambda>i. mu_bar_token self (k_current_tempo st) (k_current_bar st + i + 1))
                                         [0 .. num_new_bars - 1],
                                   k_current_bar := k_current_bar st + num_new_bars\<rparr>)
                      else st)
            in Inr (st\<lparr>k_tokens := k_tokens st
                          @ [with_tempo self (k_current_tempo st)
                               [(''Position'', VInt (k_current_pos st)),
                                (''BarPosEnc'', VInt (k_current_bar st)),
                                (''PositionPosEnc'', VInt (k_current_pos st))]]\<rparr>)))
      else Inr st)"

text \<open>One round of the loop \<^verbatim>\<open>for note_token in note_tokens\<close>.\<close>

definition MuMIDI_encode_step :: "'a tokenizer_scheme \<Rightarrow> score \<Rightarrow> rat \<Rightarrow> int \<Rightarrow> mu_encode_state
    \<Rightarrow> note_token \<Rightarrow> error + mu_encode_state" where
  "MuMIDI_encode_step self midi ticks_per_sample ticks_per_bar st note_token =
     (let t = ev_time (fst note_token);
          st = (if use_tempos self \<and> k_current_tempo_idx st + 1 < length (sc_tempos midi)
                then (case tempo_scan (drop (k_current_tempo_idx st + 1) (sc_tempos midi)) t
                             (k_current_tempo st) (k_current_tempo_idx st) of
                        (tempo, idx) \<Rightarrow> st\<lparr>k_current_tempo := tempo, k_current_tempo_idx := idx\<rparr>)
                else st) in
      ebind (MuMIDI_encode_time self ticks_per_sample ticks_per_bar st t) (\<lambda>st.
        let st = (if desc_key (ev_desc (fst note_token)) \<noteq> k_current_track st
                  then st\<lparr>k_current_track := desc_key (ev_desc (fst note_token)),
                          k_tokens := k_tokens st
                            @ [with_tempo self (k_current_tempo st)
                                 [(''Program'', VInt (desc_key (ev_desc (fst note_token)))),
                                  (''BarPosEnc'', VInt (k_current_bar st)),
                                  (''PositionPosEnc'', VInt (k_current_pos st))]]\<rparr>
                  else st)
        in Inr (st\<lparr>k_tokens := k_tokens st
                      @ [[(ev_type (fst note_token), ev_value (fst note_token)),
                          (''BarPosEnc'', VInt (k_current_bar st)),
                          (''PositionPosEnc'', VInt (k_current_pos st))]
                         @ (if use_tempos self then [(''Tempo'', VFloat (k_current_tempo st))] else [])
                         @ snd note_token]\<rparr>)))"

fun MuMIDI_encode_loop :: "'a tokenizer_scheme \<Rightarrow> score \<Rightarrow> rat \<Rightarrow> int \<Rightarrow> mu_encode_state
    \<Rightarrow> note_token list \<Rightarrow> error + mu_encode_state" where
  "MuMIDI_encode_loop self midi ticks_per_sample ticks_per_bar st [] = Inr st"
| "MuMIDI_encode_loop self midi ticks_per_sample ticks_per_bar st (note_token # rest) =
     ebind (MuMIDI_encode_step self midi ticks_per_sample ticks_per_bar st note_token) (\<lambda>st'.
       MuMIDI_encode_loop self midi ticks_per_sample ticks_per_bar st' rest)"

text \<open>
  The part of \<^verbatim>\<open>MuMIDI._midi_to_tokens\<close> after the check of the bar embeddings. The last
  call, \<^verbatim>\<open>complete_sequence\<close>, computes the ids of the tokens and leaves the tokens as
  they are; ids are not modelled.
\<close>

definition MuMIDI_encode_tokens :: "'a tokenizer_scheme \<Rightarrow> score \<Rightarrow> error + tok list list" where
  "MuMIDI_encode_tokens self midi =
     ebind (tracks_to_tokens self (sc_ticks_per_quarter midi) (sc_tracks midi)) (\<lambda>note_tokens.
       let note_tokens = sort_key sort_key_of note_tokens in
       if beat_res_max self = 0 then Inl ZeroDivisionError
       else
         (let ticks_per_sample = of_int (sc_ticks_per_quarter midi) / of_int (beat_res_max self);
              ticks_per_bar = sc_ticks_per_quarter midi * 4 in
          ebind (py_nth (sc_tempos midi) 0) (\<lambda>first_tempo.
            ebind (MuMIDI_encode_loop self midi ticks_per_sample ticks_per_bar
                     \<lparr>k_tokens = [], k_current_tick = - 1, k_current_bar = - 1, k_current_pos = - 1,
                      k_current_track = - 2, k_current_tempo_idx = 0,
                      k_current_tempo = round2 (snd first_tempo)\<rparr> note_tokens) (\<lambda>st.
              Inr (k_tokens st)))))"

text \<open>\<^verbatim>\<open>MuMIDI._midi_to_tokens\<close>: the tokenizer after the call, and the tokens.\<close>

definition MuMIDI_midi_to_tokens :: "'a tokenizer_scheme \<Rightarrow> int \<Rightarrow> score
    \<Rightarrow> error + 'a tokenizer_scheme \<times> tok list list" where
  "MuMIDI_midi_to_tokens self max_tick midi =
     ebind (MuMIDI_check_bar_embedding self max_tick midi) (\<lambda>self'.
       ebind (MuMIDI_encode_tokens self' midi) (\<lambda>tokens. Inr (self', tokens)))"

section \<open>Predicates and example objects used by the properties\<close>

text \<open>
  A CPWord token of the Note family with an absent sub-field among the ones the decoder
  requires: \<^verbatim>\<open>compound_token[2:pad_range_idx]\<close>, that is pitch, velocity, duration, and
  the program when programs are used.
\<close>

definition CPWord_absent_note :: "'a tokenizer_scheme \<Rightarrow> tok list \<Rightarrow> bool" where
  "CPWord_absent_note self ct =
     (case py_nth ct 0 of
        Inl _ \<Rightarrow> False
      | Inr t0 \<Rightarrow> snd t0 = VText ''Note'' \<and>
          list_ex (\<lambda>t. snd t = VNone) (drop 2 (take (if use_programs self then 6 else 5) ct)))"

text \<open>A MuMIDI token list of a note (Pitch or DrumPitch) whose velocity or duration is absent.\<close>

definition MuMIDI_absent_note :: "tok list \<Rightarrow> bool" where
  "MuMIDI_absent_note ts =
     (case (py_nth ts 0, py_nth ts (- 2), py_nth ts (- 1)) of
        (Inr t0, Inr tv, Inr tdur) \<Rightarrow>
          (fst t0 = ''Pitch'' \<or> fst t0 = ''DrumPitch'') \<and> (snd tv = VNone \<or> snd tdur = VNone)
      | _ \<Rightarrow> False)"

text \<open>
  Modelled from the spec: \<^verbatim>\<open>_token_duration_to_ticks\<close> of the base class maps a table
  entry \<^verbatim>\<open>beats.subdivisions.resolution\<close> back to its exact tick length (the entry
  \<^verbatim>\<open>1.0.8\<close> is 8 ticks at 8 ticks per quarter note).
\<close>

fun duration_ticks :: "val \<Rightarrow> int \<Rightarrow> error + int" where
  "duration_ticks (VDur beat pos res) td = py_floordiv ((beat * res + pos) * td) res"
| "duration_ticks _ td = Inl ValueError"

text \<open>
  An example tokenizer: 8 ticks per quarter note, a grid of 8 samples per beat, program 0,
  no optional token type.
\<close>

definition example_tokenizer :: tokenizer where
  "example_tokenizer =
     \<lparr>use_programs = False, use_chords = False, use_rests = False, use_tempos = False,
      use_time_signatures = False, remove_duplicated_notes = False, log_tempos = False,
      one_token_stream = False, programs = [0], beat_res_max = 8, time_division = 8,
      default_tempo = 120, tempos = [60, 120, 180], min_rest = 4,
      durations = [(0, 4, 8), (1, 0, 8), (2, 0, 8)], durations_ticks = [4, 8, 16],
      max_bar_embedding = 60, vocab = [], tokens_types_graph = [],
      ticks_to_duration_tokens = (\<lambda>n. if 8 \<le> n then ([(1, 0, 8)], [8]) else ([], [])),
      token_duration_to_ticks = duration_ticks,
      getitem = (\<lambda>i t. Inr t), midi_instruments = [''Acoustic Grand Piano''],
      detect_chords = (\<lambda>ns td. [])\<rparr>"

definition example_MuMIDI :: tokenizer where
  "example_MuMIDI =
     example_tokenizer\<lparr>use_programs := True, one_token_stream := True,
       tokens_types_graph := MuMIDI_create_token_types_graph example_tokenizer\<rparr>"

text \<open>Five MuMIDI token lists whose position and bar encodings lag behind the first one.\<close>

definition lagging_tokens :: "tok list list" where
  "lagging_tokens =
     [[(''Bar'', VNone), (''BarPosEnc'', VInt 1), (''PositionPosEnc'', VInt 5)],
      [(''Position'', VInt 0), (''BarPosEnc'', VInt 0), (''PositionPosEnc'', VInt 0)],
      [(''Program'', VInt 0), (''BarPosEnc'', VInt 0), (''PositionPosEnc'', VInt 0)],
      [(''Pitch'', VInt 60), (''BarPosEnc'', VInt 0), (''PositionPosEnc'', VInt 0),
       (''Velocity'', VInt 80), (''Duration'', VDur 1 0 8)],
      [(''Position'', VInt 0), (''BarPosEnc'', VInt 0), (''PositionPosEnc'', VInt 0)]]"

definition example_mu_state :: mu_decode_state where
  "example_mu_state =
     \<lparr>m_tracks = [(VInt 0, [])], m_tempos = [(0, 120)], m_current_tick = 0, m_current_bar = 0,
      m_current_track = Some (VInt 0)\<rparr>"

text \<open>The two change lists that the decoder of CPWord returns in the score.\<close>

definition changes :: "cp_decode_state \<Rightarrow> (int \<times> rat) list \<times> (int \<times> int \<times> int) list" where
  "changes st = (d_tempo_changes st, d_time_signature_changes st)"

definition example_tempo_tokenizer :: tokenizer where
  "example_tempo_tokenizer = example_tokenizer\<lparr>use_tempos := True\<rparr>"

definition example_first_seq :: "tok list list" where
  "example_first_seq =
     [[(''Family'', VText ''Metric''), (''Bar'', VNone), (''Ignore'', VNone),
       (''Ignore'', VNone), (''Ignore'', VNone), (''Ignore'', VNone)],
      [(''Family'', VText ''Metric''), (''Position'', VInt 4), (''Ignore'', VNone),
       (''Ignore'', VNone), (''Ignore'', VNone), (''Tempo'', VFloat 120)]]"

definition example_second_seq :: "tok list list" where
  "example_second_seq =
     [[(''Family'', VText ''Metric''), (''Bar'', VNone), (''Ignore'', VNone),
       (''Ignore'', VNone), (''Ignore'', VNone), (''Ignore'', VNone)],
      [(''Family'', VText ''Metric''), (''Position'', VInt 2), (''Ignore'', VNone),
       (''Ignore'', VNone), (''Ignore'', VNone), (''Tempo'', VFloat 60)]]"

definition example_later_state :: cp_decode_state where
  "example_later_state =
     CPWord_initial_state\<lparr>d_tempo_changes := [(- 1, - 1), (4, 120)],
                           d_time_signature_changes := [(0, 4, 4)]\<rparr>"

text \<open>The type of the second field of a compound token: Bar, Position or Ignore.\<close>

definition token_kind :: "event list \<Rightarrow> string" where
  "token_kind tk = (case tk of _ # e # _ \<Rightarrow> ev_type e | _ \<Rightarrow> [])"

text \<open>A compound token that carries a Rest field.\<close>

definition is_rest_token :: "event list \<Rightarrow> bool" where
  "is_rest_token tk = list_ex (\<lambda>e. ev_type e = ''Rest'') tk"

text \<open>The grid of the encoder: what a TimeSig event updates.\<close>

definition grid :: "encode_state \<Rightarrow> int \<times> int \<times> int \<times> (int \<times> int)" where
  "grid st = (e_bar_at_last_ts_change st, e_tick_at_last_ts_change st, e_ticks_per_bar st,
              e_current_time_sig st)"

text \<open>The ticks at which successive durations start.\<close>

fun running_ticks :: "int \<Rightarrow> int list \<Rightarrow> int list" where
  "running_ticks t [] = []"
| "running_ticks t (d # ds) = t # running_ticks (t + d) ds"

text \<open>
  The Rest token of one table entry: a token whose second field is Ignore and that holds the
  Rest event of the entry's duration at the entry's start tick.
\<close>

definition rest_token_of :: "int \<Rightarrow> event list \<Rightarrow> ((int \<times> int \<times> int) \<times> int) \<times> int \<Rightarrow> bool" where
  "rest_token_of t tk p =
     (case p of (((b, s, r), d), tick) \<Rightarrow>
        token_kind tk = ''Ignore'' \<and>
        \<lparr>ev_type = ''Rest'', ev_value = VDur b s r, ev_time = tick, ev_desc = DTicks (t - tick)\<rparr> \<in> set tk)"



text \<open>The constructor \<^verbatim>\<open>Event(type_, value, time, desc)\<close>.\<close>

definition Event :: "string \<Rightarrow> val \<Rightarrow> int \<Rightarrow> desc \<Rightarrow> event" where
  "Event ty v t d = \<lparr>ev_type = ty, ev_value = v, ev_time = t, ev_desc = d\<rparr>"

definition example_time_sig_tokenizer :: tokenizer where
  "example_time_sig_tokenizer = example_tokenizer\<lparr>use_time_signatures := True\<rparr>"

text \<open>
  The events of a 4/4 note at tick 0, a change to 3/4 at tick 32 and a note at tick 40; the
  description of a Pitch event is the end of its note.
\<close>

definition waltz_events :: "event list" where
  "waltz_events =
     [Event ''TimeSig'' (VTimeSig 4 4) 0 DNone,
      Event ''Pitch'' (VInt 60) 0 (DEnd 8),
      Event ''Velocity'' (VInt 80) 0 DNone,
      Event ''Duration'' (VDur 1 0 8) 0 DNone,
      Event ''TimeSig'' (VTimeSig 3 4) 32 DNone,
      Event ''Pitch'' (VInt 62) 40 (DEnd 48),
      Event ''Velocity'' (VInt 80) 40 DNone,
      Event ''Duration'' (VDur 1 0 8) 40 DNone]"

definition example_encode_state :: encode_state where
  "example_encode_state =
     \<lparr>e_all_events = [], e_current_bar = 0, e_bar_at_last_ts_change = 0, e_previous_tick = 24,
      e_previous_note_end = 30, e_tick_at_last_ts_change = 0, e_tick_at_current_bar = 0,
      e_current_time_sig = (4, 4), e_current_tempo = VFloat 120, e_current_program = None,
      e_ticks_per_bar = 32\<rparr>"

text \<open>A call that returns without raising.\<close>

definition succeeds :: "error + 'a \<Rightarrow> bool" where
  "succeeds r = (case r of Inl _ \<Rightarrow> False | Inr _ \<Rightarrow> True)"

text \<open>The token strings of the encoded events, the encoder state and the decoder state at the end.\<close>

definition CPWord_encode_strings :: "'a tokenizer_scheme \<Rightarrow> event list \<Rightarrow> error + tok list list" where
  "CPWord_encode_strings self events =
     ebind (CPWord_add_time_events self events) (\<lambda>tokens. Inr (map token_strings tokens))"

definition CPWord_encode_final :: "'a tokenizer_scheme \<Rightarrow> event list \<Rightarrow> error + encode_state" where
  "CPWord_encode_final self events =
     ebind (CPWord_encode_start self events) (\<lambda>st. CPWord_encode_loop self st events)"

definition CPWord_decode_final :: "'a tokenizer_scheme \<Rightarrow> tok list list \<Rightarrow> error + cp_decode_state" where
  "CPWord_decode_final self seq =
     CPWord_decode_sequence self (time_division self) (time_division self div beat_res_max self) None 0
       CPWord_initial_state seq"

definition waltz_tokens :: "tok list list" where
  "waltz_tokens =
     [[(''Family'', VText ''Metric''), (''Bar'', VNone), (''Ignore'', VNone), (''Ignore'', VNone),
       (''Ignore'', VNone), (''TimeSig'', VTimeSig 4 4)],
      [(''Family'', VText ''Metric''), (''Position'', VInt 0), (''Ignore'', VNone), (''Ignore'', VNone),
       (''Ignore'', VNone), (''Ignore'', VNone)],
      [(''Family'', VText ''Note''), (''Ignore'', VNone), (''Pitch'', VInt 60), (''Velocity'', VInt 80),
       (''Duration'', VDur 1 0 8), (''Ignore'', VNone)],
      [(''Family'', VText ''Metric''), (''Bar'', VNone), (''Ignore'', VNone), (''Ignore'', VNone),
       (''Ignore'', VNone), (''TimeSig'', VTimeSig 3 4)],
      [(''Family'', VText ''Metric''), (''Position'', VInt 8), (''Ignore'', VNone), (''Ignore'', VNone),
       (''Ignore'', VNone), (''Ignore'', VNone)],
      [(''Family'', VText ''Note''), (''Ignore'', VNone), (''Pitch'', VInt 62), (''Velocity'', VInt 80),
       (''Duration'', VDur 1 0 8), (''Ignore'', VNone)]]"

definition grid_of :: "encode_state \<Rightarrow> int \<times> int \<times> int" where
  "grid_of st = (e_current_bar st, e_tick_at_current_bar st, e_ticks_per_bar st)"

definition cursor_of :: "cp_decode_state \<Rightarrow> int \<times> int \<times> int \<times> int" where
  "cursor_of st = (d_current_bar st, d_tick_at_current_bar st, d_ticks_per_bar st, d_current_tick st)"















text \<open>A list that begins with the list \<open>old_sub\<close>.\<close>

definition extends :: "'a list \<Rightarrow> 'a list \<Rightarrow> bool" where
  "extends old_sub new_sub = (take (length old_sub) new_sub = old_sub)"

text \<open>
  The vocabulary \<open>new\<close> keeps every entry of \<open>old\<close>: it has the same sub-vocabularies, and
  each of them begins with the one of \<open>old\<close>.
\<close>

definition vocab_kept :: "tok list list \<Rightarrow> tok list list \<Rightarrow> bool" where
  "vocab_kept old new = list_all2 extends old new"

text \<open>
  A MuMIDI tokenizer that has seen two bars so far, and a piece of four bars: a note at
  tick 0 and one from tick 96 to tick 100, with 8 ticks per quarter note.
\<close>

definition small_vocab_MuMIDI :: tokenizer where
  "small_vocab_MuMIDI =
     example_MuMIDI\<lparr>max_bar_embedding := 2,
       vocab := [[(''Pitch'', VInt 60), (''Bar'', VNone), (''Position'', VInt 0), (''Program'', VInt 0)],
                 [(''BarPosEnc'', VInt 0), (''BarPosEnc'', VInt 1)],
                 [(''PositionPosEnc'', VNone), (''PositionPosEnc'', VInt 0)],
                 [(''Velocity'', VInt 80)],
                 [(''Duration'', VDur 1 0 8)]]\<rparr>"

definition long_score :: score where
  "long_score =
     \<lparr>sc_ticks_per_quarter = 8,
      sc_tracks = [\<lparr>tr_program = 0, tr_is_drum = False, tr_name = ''Acoustic Grand Piano'',
                    tr_notes = [Note 0 8 60 80, Note 96 4 62 80]\<rparr>],
      sc_tempos = [(0, 120)], sc_time_signatures = [(0, 4, 4)]\<rparr>"

section \<open>Properties: helper facts\<close>

lemma ebind_Inr_iff: "ebind m f = Inr y \<longleftrightarrow> (\<exists>x. m = Inr x \<and> f x = Inr y)"
  by (cases m) (simp_all add: ebind_def)

lemma ebind_simps [simp]: "ebind (Inr x) f = f x" "ebind (Inl e) f = Inl e"
  by (simp_all add: ebind_def)

lemma round2_m1: "round2 (- 1) = - 1"
  by (simp add: round2_def round_half_even_def)

lemma example_tempo_simps:
  "use_tempos example_tempo_tokenizer" "\<not> use_programs example_tempo_tokenizer"
  "\<not> use_chords example_tempo_tokenizer" "\<not> use_rests example_tempo_tokenizer"
  "\<not> use_time_signatures example_tempo_tokenizer"
  by (simp_all add: example_tempo_tokenizer_def example_tokenizer_def)

lemma example_tempo_fields:
  "one_token_stream example_tempo_tokenizer = False"
  "beat_res_max example_tempo_tokenizer = 8"
  "time_division example_tempo_tokenizer = 8"
  "midi_instruments example_tempo_tokenizer = [''Acoustic Grand Piano'']"
  "default_tempo example_tempo_tokenizer = 120"
  by (simp_all add: example_tempo_tokenizer_def example_tokenizer_def)

lemma example_tempo_field_value:
  "field_value example_tempo_tokenizer [t0, t1, t2, t3, t4, t5] ''Tempo'' = Inr (snd t5)"
  by (simp add: field_value_def vocab_types_idx_def CPWord_token_types_def dict_get_def
        example_tempo_simps py_nth_def upt_rec)

section \<open>The error count of the validators\<close>

lemma CPWord_errors_good_le:
  "CPWord_errors_good self st token ty v = Inr st' \<Longrightarrow> v_err st' \<le> v_err st + 1"
  by (auto simp: CPWord_errors_good_def ebind_Inr_iff split: if_splits option.splits)

lemma CPWord_errors_step_le:
  "CPWord_errors_step self st token = Inr st' \<Longrightarrow> v_err st' \<le> v_err st + 1"
  by (auto simp: CPWord_errors_step_def ebind_Inr_iff split: if_splits prod.splits
      dest: CPWord_errors_good_le)

lemma CPWord_errors_loop_le:
  "CPWord_errors_loop self st tokens = Inr st' \<Longrightarrow> v_err st' \<le> v_err st + length tokens"
proof (induction tokens arbitrary: st)
  case Nil
  then show ?case by simp
next
  case (Cons token rest)
  then obtain st1 where s1: "CPWord_errors_step self st token = Inr st1"
    and l: "CPWord_errors_loop self st1 rest = Inr st'"
    by (auto simp: ebind_Inr_iff)
  from Cons.IH [OF l] CPWord_errors_step_le [OF s1] show ?case by simp
qed

text \<open>
  For CPWord the bound holds: whenever the validator returns, the count is at most the
  number of tokens after the first.
\<close>

lemma CPWord_tokens_errors_le:
  "CPWord_tokens_errors self tokens = Inr n \<Longrightarrow> n \<le> length tokens - 1"
  by (auto simp: CPWord_tokens_errors_def ebind_Inr_iff dest!: CPWord_errors_loop_le)

text \<open>
  Claim C3. The validators are to count at most one error per token, so that the count
  never exceeds the number of tokens. \<^verbatim>\<open>MuMIDI._tokens_errors\<close> breaks this: a token of a
  legal type can be counted once in its own branch (a position not after the current
  one, a duplicated pitch) and once more by the test on the position and bar encodings
  that follows. On the five token lists \<open>lagging_tokens\<close> it returns six errors.
\<close>

theorem MuMIDI_tokens_errors_exceeds:
  "MuMIDI_tokens_errors example_MuMIDI lagging_tokens = Inr 6 \<and> length lagging_tokens = 5"
  by (simp add: MuMIDI_tokens_errors_def lagging_tokens_def example_MuMIDI_def example_tokenizer_def
      MuMIDI_create_token_types_graph_def MuMIDI_errors_step_def MuMIDI_errors_good_def
      py_nth_def pos_enc_value_def dict_get_def)

section \<open>Note tokens with an absent sub-field\<close>

lemma MuMIDI_decode_note_absent:
  "py_nth ts (- 2) = Inr tv \<Longrightarrow> py_nth ts (- 1) = Inr tdur \<Longrightarrow> snd tv = VNone \<or> snd tdur = VNone
   \<Longrightarrow> MuMIDI_decode_note self td st ts v = Inr None"
  by (auto simp: MuMIDI_decode_note_def)

lemma CPWord_absent_note_skipped:
  "CPWord_absent_note self ct \<Longrightarrow> CPWord_decode_token self td tps si st ct = Inr st"
  by (auto simp: CPWord_absent_note_def CPWord_decode_token_def CPWord_decode_note_def Let_def
      split: sum.splits)

lemma MuMIDI_absent_note_skipped:
  assumes "MuMIDI_absent_note ts"
  shows "MuMIDI_decode_step self td tps st ts = Inr st"
proof -
  from assms obtain t0 tv tdur where n: "py_nth ts 0 = Inr t0" "py_nth ts (- 2) = Inr tv"
     "py_nth ts (- 1) = Inr tdur" and ty: "fst t0 = ''Pitch'' \<or> fst t0 = ''DrumPitch''"
     and ab: "snd tv = VNone \<or> snd tdur = VNone"
    by (auto simp: MuMIDI_absent_note_def split: sum.splits)
  have dn: "MuMIDI_decode_note self td st ts (snd t0) = Inr None"
    using n(2,3) ab by (rule MuMIDI_decode_note_absent)
  obtain a b where t0: "t0 = (a, b)" by (cases t0)
  from ty t0 have a: "a = ''Pitch'' \<or> a = ''DrumPitch''" by simp
  show ?thesis
    unfolding MuMIDI_decode_step_def n t0 using a dn t0 by auto
qed

text \<open>
  Claim C4, as amended. A CPWord token of the Note family in which the pitch, the
  velocity, the duration, or (when programs are used) the program is \<^verbatim>\<open>None\<close>, and a
  MuMIDI note token in which the velocity or the duration is \<^verbatim>\<open>None\<close>, is skipped: the
  decoding step returns without an exception and leaves the whole decoder state, tracks
  and notes included, as it was.
\<close>

theorem absent_note_skipped:
  "(CPWord_absent_note self ct \<longrightarrow> CPWord_decode_token self td tps si st ct = Inr st) \<and>
   (MuMIDI_absent_note ts \<longrightarrow> MuMIDI_decode_step mself mtd mtps mst ts = Inr mst)"
  using CPWord_absent_note_skipped MuMIDI_absent_note_skipped by blast

theorem absent_note_skipped_witness:
  "CPWord_absent_note example_tokenizer
     [(''Family'', VText ''Note''), (''Ignore'', VNone), (''Pitch'', VInt 60), (''Ignore'', VNone),
      (''Duration'', VDur 1 0 8)] \<and>
   CPWord_decode_token example_tokenizer 8 1 0 CPWord_initial_state
     [(''Family'', VText ''Note''), (''Ignore'', VNone), (''Pitch'', VInt 60), (''Ignore'', VNone),
      (''Duration'', VDur 1 0 8)] = Inr CPWord_initial_state \<and>
   MuMIDI_absent_note
     [(''Pitch'', VInt 60), (''BarPosEnc'', VInt 0), (''PositionPosEnc'', VInt 0),
      (''PAD'', VNone), (''Duration'', VDur 1 0 8)] \<and>
   MuMIDI_decode_step example_MuMIDI 8 1 example_mu_state
     [(''Pitch'', VInt 60), (''BarPosEnc'', VInt 0), (''PositionPosEnc'', VInt 0),
      (''PAD'', VNone), (''Duration'', VDur 1 0 8)] = Inr example_mu_state"
proof -
  have a: "CPWord_absent_note example_tokenizer
     [(''Family'', VText ''Note''), (''Ignore'', VNone), (''Pitch'', VInt 60), (''Ignore'', VNone),
      (''Duration'', VDur 1 0 8)]"
    by (simp add: CPWord_absent_note_def py_nth_def example_tokenizer_def)
  have b: "MuMIDI_absent_note
     [(''Pitch'', VInt 60), (''BarPosEnc'', VInt 0), (''PositionPosEnc'', VInt 0),
      (''PAD'', VNone), (''Duration'', VDur 1 0 8)]"
    by (simp add: MuMIDI_absent_note_def py_nth_def)
  from a b absent_note_skipped [of example_tokenizer _ 8 1 0 CPWord_initial_state _ example_MuMIDI
      8 1 example_mu_state]
  show ?thesis by blast
qed

text \<open>
  The claim as stated also lists the pitch among the sub-fields whose absence makes
  MuMIDI skip the token. MuMIDI tests the velocity and the duration only: a token
  \<^verbatim>\<open>Pitch_None\<close> with a velocity and a duration reaches \<^verbatim>\<open>int("None")\<close> and raises.
\<close>

theorem MuMIDI_absent_pitch_raises:
  "MuMIDI_decode_step example_MuMIDI 8 1 example_mu_state
     [(''Pitch'', VNone), (''BarPosEnc'', VInt 0), (''PositionPosEnc'', VInt 0),
      (''Velocity'', VInt 80), (''Duration'', VDur 1 0 8)] = Inl ValueError"
  by (simp add: MuMIDI_decode_step_def MuMIDI_decode_note_def py_nth_def)

section \<open>Tempo and time-signature changes in CPWord decoding\<close>

lemma changes_simps [simp]:
  "changes (st\<lparr>d_tracks := a\<rparr>) = changes st"
  "changes (st\<lparr>d_current_tick := b\<rparr>) = changes st"
  "changes (st\<lparr>d_tick_at_last_ts_change := c\<rparr>) = changes st"
  "changes (st\<lparr>d_tick_at_current_bar := d\<rparr>) = changes st"
  "changes (st\<lparr>d_current_bar := e\<rparr>) = changes st"
  "changes (st\<lparr>d_bar_at_last_ts_change := f\<rparr>) = changes st"
  "changes (st\<lparr>d_current_program := g\<rparr>) = changes st"
  "changes (st\<lparr>d_current_instrument := h\<rparr>) = changes st"
  "changes (st\<lparr>d_previous_note_end := i\<rparr>) = changes st"
  "changes (st\<lparr>d_current_time_sig := j\<rparr>) = changes st"
  "changes (st\<lparr>d_ticks_per_bar := k\<rparr>) = changes st"
  "changes (st\<lparr>d_midi_tracks := l\<rparr>) = changes st"
  by (simp_all add: changes_def)

lemma note_changes: "CPWord_decode_note self td st ct = Inr st' \<Longrightarrow> changes st' = changes st"
  by (auto simp: CPWord_decode_note_def Let_def ebind_Inr_iff split: if_splits option.splits)

lemma bar_changes: "0 < si \<Longrightarrow> CPWord_decode_bar self td si st ct = Inr st' \<Longrightarrow> changes st' = changes st"
  by (auto simp: CPWord_decode_bar_def Let_def ebind_Inr_iff split: if_splits prod.splits)

lemma position_changes:
  "0 < si \<Longrightarrow> CPWord_decode_position self tps si st ct = Inr st' \<Longrightarrow> changes st' = changes st"
  by (auto simp: CPWord_decode_position_def Let_def ebind_Inr_iff split: if_splits)

lemma rest_changes: "CPWord_decode_rest self td st v = Inr st' \<Longrightarrow> changes st' = changes st"
  unfolding CPWord_decode_rest_def Let_def ebind_Inr_iff
  by (elim exE conjE) (simp split: if_splits, (erule subst, simp)+)

lemma metric_changes:
  "0 < si \<Longrightarrow> CPWord_decode_metric self td tps si st ct = Inr st' \<Longrightarrow> changes st' = changes st"
  by (auto simp: CPWord_decode_metric_def Let_def ebind_Inr_iff split: if_splits
      dest: bar_changes position_changes rest_changes)

lemma token_changes:
  "0 < si \<Longrightarrow> CPWord_decode_token self td tps si st ct = Inr st' \<Longrightarrow> changes st' = changes st"
  by (auto simp: CPWord_decode_token_def Let_def ebind_Inr_iff split: if_splits
      dest: note_changes metric_changes)

lemma seq_changes:
  "0 < si \<Longrightarrow> CPWord_decode_seq self td tps si st seq = Inr st' \<Longrightarrow> changes st' = changes st"
proof (induction seq arbitrary: st)
  case Nil
  then show ?case by simp
next
  case (Cons ct seq)
  from Cons.prems(2) obtain st1 where a: "CPWord_decode_token self td tps si st ct = Inr st1"
    and b: "CPWord_decode_seq self td tps si st1 seq = Inr st'"
    by (auto simp: ebind_Inr_iff)
  from Cons.IH [OF Cons.prems(1) b] token_changes [OF Cons.prems(1) a] show ?case by simp
qed

lemma track_changes: "CPWord_sequence_track self progs si st = Inr st' \<Longrightarrow> changes st' = changes st"
  by (auto simp: CPWord_sequence_track_def Let_def ebind_Inr_iff split: if_splits option.splits prod.splits)

lemma sequence_changes:
  assumes "0 < si" and "CPWord_decode_sequence self td tps progs si st seq = Inr st'"
  shows "changes st' = changes st"
proof -
  from assms(1) have s: "CPWord_sequence_start self si st seq = Inr st"
    by (simp add: CPWord_sequence_start_def)
  from assms(2) obtain cts tpb st1 st2 where
    t: "CPWord_sequence_track self progs si (st\<lparr>d_current_time_sig := cts, d_ticks_per_bar := tpb\<rparr>) = Inr st1"
    and l: "CPWord_decode_seq self td tps si st1 seq = Inr st2"
    and f: "(if \<not> one_token_stream self
       then (case d_current_instrument st2 of
               None \<Rightarrow> Inl TypeError
             | Some tr \<Rightarrow> Inr (st2\<lparr>d_midi_tracks := d_midi_tracks st2 @ [tr]\<rparr>))
       else Inr st2) = Inr st'"
    unfolding CPWord_decode_sequence_def s by (auto simp: ebind_Inr_iff)
  from f have "changes st' = changes st2" by (auto split: if_splits option.splits)
  also have "\<dots> = changes st1" using seq_changes [OF assms(1) l] .
  also have "\<dots> = changes st" using track_changes [OF t] by simp
  finally show ?thesis .
qed

lemma sequences_changes:
  "0 < si \<Longrightarrow> CPWord_decode_sequences self td tps progs si st seqs = Inr st' \<Longrightarrow> changes st' = changes st"
proof (induction seqs arbitrary: si st)
  case Nil
  then show ?case by simp
next
  case (Cons seq seqs)
  from Cons.prems(2) obtain st1 where a: "CPWord_decode_sequence self td tps progs si st seq = Inr st1"
    and b: "CPWord_decode_sequences self td tps progs (Suc si) st1 seqs = Inr st'"
    by (auto simp: ebind_Inr_iff)
  have "changes st' = changes st1" using Cons.IH [OF _ b] by simp
  with sequence_changes [OF Cons.prems(1) a] show ?case by simp
qed

lemma CPWord_tokens_to_midi_first:
  assumes "CPWord_tokens_to_midi self (ManySeq (first # others)) progs tda = Inr midi"
  shows "\<exists>midi0. CPWord_tokens_to_midi self (ManySeq [first]) progs tda = Inr midi0
           \<and> sc_tempos midi = sc_tempos midi0 \<and> sc_time_signatures midi = sc_time_signatures midi0"
proof -
  define td where "td = (case tda of None \<Rightarrow> time_division self | Some t \<Rightarrow> t)"
  define tps where "tps = td div beat_res_max self"
  from assms have ots: "\<not> one_token_stream self" and b0: "beat_res_max self \<noteq> 0"
    and dv: "td mod beat_res_max self = 0"
    by (auto simp: CPWord_tokens_to_midi_def unsqueeze_def td_def Let_def split: if_splits)
  from assms ots b0 dv obtain st where
    all: "CPWord_decode_sequences self td tps progs 0 CPWord_initial_state (first # others) = Inr st"
    and m: "midi = \<lparr>sc_ticks_per_quarter = td, sc_tracks = d_midi_tracks st,
                 sc_tempos = final_tempo_changes self (d_tempo_changes st),
                 sc_time_signatures = d_time_signature_changes st\<rparr>"
    by (auto simp: CPWord_tokens_to_midi_def unsqueeze_def td_def [symmetric] tps_def Let_def ebind_Inr_iff)
  from all obtain st1 where
    one: "CPWord_decode_sequence self td tps progs 0 CPWord_initial_state first = Inr st1"
    and rest: "CPWord_decode_sequences self td tps progs (Suc 0) st1 others = Inr st"
    by (auto simp: ebind_Inr_iff)
  have ch: "changes st = changes st1" using sequences_changes [OF _ rest] by simp
  have "CPWord_tokens_to_midi self (ManySeq [first]) progs tda =
      Inr \<lparr>sc_ticks_per_quarter = td, sc_tracks = d_midi_tracks st1,
                 sc_tempos = final_tempo_changes self (d_tempo_changes st1),
                 sc_time_signatures = d_time_signature_changes st1\<rparr>"
    using ots b0 dv one
    by (simp add: CPWord_tokens_to_midi_def unsqueeze_def td_def [symmetric] tps_def [symmetric] Let_def)
  with m ch show ?thesis by (simp add: changes_def)
qed


text \<open>
  Claim C6. When CPWord decodes several token sequences, a sequence of index greater than
  0 leaves the tempo changes and the time-signature changes as they were, whatever Tempo
  and TimeSig fields its tokens carry; hence the two lists of the decoded score are the
  ones that decoding the first sequence alone gives.
\<close>

theorem CPWord_changes_from_first_sequence:
  "(0 < si \<and> CPWord_decode_sequence self td tps progs si st seq = Inr st'
      \<longrightarrow> d_tempo_changes st' = d_tempo_changes st
          \<and> d_time_signature_changes st' = d_time_signature_changes st) \<and>
   (CPWord_tokens_to_midi self (ManySeq (first # others)) progs' tda = Inr midi
      \<longrightarrow> (\<exists>midi0. CPWord_tokens_to_midi self (ManySeq [first]) progs' tda = Inr midi0
             \<and> sc_tempos midi = sc_tempos midi0
             \<and> sc_time_signatures midi = sc_time_signatures midi0))"
proof (intro conjI impI)
  assume a: "0 < si \<and> CPWord_decode_sequence self td tps progs si st seq = Inr st'"
  then have "changes st' = changes st" using sequence_changes by blast
  then show "d_tempo_changes st' = d_tempo_changes st"
    and "d_time_signature_changes st' = d_time_signature_changes st"
    by (simp_all add: changes_def)
next
  assume "CPWord_tokens_to_midi self (ManySeq (first # others)) progs' tda = Inr midi"
  then show "\<exists>midi0. CPWord_tokens_to_midi self (ManySeq [first]) progs' tda = Inr midi0
             \<and> sc_tempos midi = sc_tempos midi0
             \<and> sc_time_signatures midi = sc_time_signatures midi0"
    by (rule CPWord_tokens_to_midi_first)
qed

lemma example_second_decoded:
  "\<exists>st'. CPWord_decode_sequence example_tempo_tokenizer 8 1 None 1 example_later_state
            example_second_seq = Inr st'"
  by (simp add: CPWord_decode_sequence_def CPWord_sequence_start_def CPWord_sequence_track_def
      example_later_state_def CPWord_initial_state_def example_second_seq_def
      compute_ticks_per_bar_def py_floordiv_def py_nth_def track_name_def
      CPWord_decode_token_def CPWord_decode_metric_def CPWord_decode_bar_def
      CPWord_decode_position_def example_tempo_fields example_tempo_simps Let_def)

lemma example_both_decoded:
  "\<exists>midi. CPWord_tokens_to_midi example_tempo_tokenizer
            (ManySeq [example_first_seq, example_second_seq]) None None = Inr midi"
  by (simp add: CPWord_tokens_to_midi_def unsqueeze_def
      CPWord_decode_sequence_def CPWord_sequence_start_def CPWord_sequence_track_def
      CPWord_initial_state_def example_first_seq_def example_second_seq_def
      compute_ticks_per_bar_def py_floordiv_def py_nth_def track_name_def TIME_SIGNATURE_def
      CPWord_decode_token_def CPWord_decode_metric_def CPWord_decode_bar_def
      CPWord_decode_position_def example_tempo_fields example_tempo_simps
      example_tempo_field_value round2_m1 Let_def)

theorem CPWord_changes_from_first_sequence_witness:
  "\<exists>st' midi midi0.
     CPWord_decode_sequence example_tempo_tokenizer 8 1 None 1 example_later_state
       example_second_seq = Inr st' \<and>
     d_tempo_changes st' = [(- 1, - 1), (4, 120)] \<and>
     d_time_signature_changes st' = [(0, 4, 4)] \<and>
     CPWord_tokens_to_midi example_tempo_tokenizer
       (ManySeq [example_first_seq, example_second_seq]) None None = Inr midi \<and>
     CPWord_tokens_to_midi example_tempo_tokenizer (ManySeq [example_first_seq]) None None = Inr midi0 \<and>
     sc_tempos midi = sc_tempos midi0 \<and> sc_time_signatures midi = sc_time_signatures midi0"
proof -
  from example_second_decoded obtain st' where
    a: "CPWord_decode_sequence example_tempo_tokenizer 8 1 None 1 example_later_state
            example_second_seq = Inr st'" by blast
  from example_both_decoded obtain midi where
    b: "CPWord_tokens_to_midi example_tempo_tokenizer
            (ManySeq [example_first_seq, example_second_seq]) None None = Inr midi" by blast
  note t = CPWord_changes_from_first_sequence [of 1 example_tempo_tokenizer 8 1 None
      example_later_state example_second_seq st' example_first_seq "[example_second_seq]" None None midi]
  from t a have "d_tempo_changes st' = d_tempo_changes example_later_state"
    "d_time_signature_changes st' = d_time_signature_changes example_later_state"
    by simp_all
  then have c: "d_tempo_changes st' = [(- 1, - 1), (4, 120)]" "d_time_signature_changes st' = [(0, 4, 4)]"
    by (simp_all add: example_later_state_def)
  from t b obtain midi0 where
    "CPWord_tokens_to_midi example_tempo_tokenizer (ManySeq [example_first_seq]) None None = Inr midi0"
    "sc_tempos midi = sc_tempos midi0" "sc_time_signatures midi = sc_time_signatures midi0"
    by blast
  with a b c show ?thesis by blast
qed

lemma if_Inr: "(if c then Inr a else Inr b) = Inr (if c then a else b)"
  by simp

lemma CPWord_decode_position_reads:
  assumes "CPWord_decode_position self tps si st ct = Inr st'" and "use_tempos self \<and> si = 0"
  shows "\<exists>tempo last_tempo. ebind (field_value self ct ''Tempo'') float_of = Inr tempo \<and>
           py_nth (d_tempo_changes st) (- 1) = Inr last_tempo"
  using assms unfolding CPWord_decode_position_def Let_def
  by (auto simp: ebind_Inr_iff split: if_split_asm)

lemma CPWord_decode_position_result:
  assumes "CPWord_decode_position self tps si st ct = Inr st'" and "use_tempos self \<and> si = 0"
    and "ebind (field_value self ct ''Tempo'') float_of = Inr tempo"
    and "py_nth (d_tempo_changes st) (- 1) = Inr last_tempo"
  shows "d_tempo_changes st' =
          (if tempo \<noteq> round2 (snd last_tempo) \<and> d_current_tick st' \<noteq> fst last_tempo
           then d_tempo_changes st @ [(d_current_tick st', tempo)]
           else d_tempo_changes st)"
proof -
  define st0 where "st0 = (if d_current_bar st = - 1 then st\<lparr>d_current_bar := 0\<rparr> else st)"
  have s0: "d_tempo_changes st0 = d_tempo_changes st" "d_tick_at_current_bar st0 = d_tick_at_current_bar st"
    by (simp_all add: st0_def)
  from assms obtain pos where
    r: "st' = (if tempo \<noteq> round2 (snd last_tempo)
               \<and> d_tick_at_current_bar st + pos * tps \<noteq> fst last_tempo
            then st0\<lparr>d_current_tick := d_tick_at_current_bar st + pos * tps,
                          d_tempo_changes := d_tempo_changes st
                            @ [(d_tick_at_current_bar st + pos * tps, tempo)]\<rparr>
            else st0\<lparr>d_current_tick := d_tick_at_current_bar st + pos * tps\<rparr>)"
    unfolding CPWord_decode_position_def Let_def st0_def [symmetric] if_Inr
    by (auto simp: ebind_Inr_iff s0 split del: if_split cong del: if_weak_cong)
  show ?thesis
    by (cases "tempo \<noteq> round2 (snd last_tempo)
               \<and> d_tick_at_current_bar st + pos * tps \<noteq> fst last_tempo") (simp_all add: r s0)
qed

lemma CPWord_decode_position_off:
  assumes "CPWord_decode_position self tps si st ct = Inr st'" and "\<not> (use_tempos self \<and> si = 0)"
  shows "d_tempo_changes st' = d_tempo_changes st"
  using assms unfolding CPWord_decode_position_def Let_def
  by (auto simp: ebind_Inr_iff split: if_split_asm)

lemma CPWord_decode_position_tempo:
  assumes "CPWord_decode_position self tps si st ct = Inr st'"
  shows "if use_tempos self \<and> si = 0
         then (\<exists>tempo last_tempo.
                 ebind (field_value self ct ''Tempo'') float_of = Inr tempo \<and>
                 py_nth (d_tempo_changes st) (- 1) = Inr last_tempo \<and>
                 d_tempo_changes st' =
                   (if tempo \<noteq> round2 (snd last_tempo) \<and> d_current_tick st' \<noteq> fst last_tempo
                    then d_tempo_changes st @ [(d_current_tick st', tempo)]
                    else d_tempo_changes st))
         else d_tempo_changes st' = d_tempo_changes st"
proof (cases "use_tempos self \<and> si = 0")
  case False
  show ?thesis unfolding if_not_P [OF False] using CPWord_decode_position_off [OF assms False] .
next
  case True
  from CPWord_decode_position_reads [OF assms True] obtain tempo last_tempo where
    f: "ebind (field_value self ct ''Tempo'') float_of = Inr tempo"
    and l: "py_nth (d_tempo_changes st) (- 1) = Inr last_tempo"
    by blast
  note e = CPWord_decode_position_result [OF assms True f l]
  have "\<exists>tempo last_tempo.
                 ebind (field_value self ct ''Tempo'') float_of = Inr tempo \<and>
                 py_nth (d_tempo_changes st) (- 1) = Inr last_tempo \<and>
                 d_tempo_changes st' =
                   (if tempo \<noteq> round2 (snd last_tempo) \<and> d_current_tick st' \<noteq> fst last_tempo
                    then d_tempo_changes st @ [(d_current_tick st', tempo)]
                    else d_tempo_changes st)"
    by (rule exI [of _ tempo], rule exI [of _ last_tempo], intro conjI) (rule f, rule l, rule e)
  then show ?thesis unfolding if_P [OF True] .
qed


text \<open>
  Claim C7. A Position token of CPWord adds its tempo to the tempo changes only when
  tempos are used, the sequence is the first one, the value differs from the last recorded
  tempo (which the code rounds to two decimals) and the tick differs from the tick of the
  last recorded tempo; the entry added is the tempo at the new current tick. Otherwise
  the list of tempo changes is left as it was.
\<close>

theorem CPWord_position_tempo_dedup:
  assumes "py_nth ct 0 = Inr t0" and "snd t0 = VText ''Metric''"
    and "py_nth ct 1 = Inr t1" and "fst t1 = ''Position''"
    and "CPWord_decode_token self td tps si st ct = Inr st'"
  shows "if use_tempos self \<and> si = 0
         then (\<exists>tempo last_tempo.
                 ebind (field_value self ct ''Tempo'') float_of = Inr tempo \<and>
                 py_nth (d_tempo_changes st) (- 1) = Inr last_tempo \<and>
                 d_tempo_changes st' =
                   (if tempo \<noteq> round2 (snd last_tempo) \<and> d_current_tick st' \<noteq> fst last_tempo
                    then d_tempo_changes st @ [(d_current_tick st', tempo)]
                    else d_tempo_changes st))
         else d_tempo_changes st' = d_tempo_changes st"
proof -
  from assms obtain st1 where p: "CPWord_decode_position self tps si st ct = Inr st1"
    and e: "st' = st1\<lparr>d_previous_note_end := max (d_previous_note_end st1) (d_current_tick st1)\<rparr>"
    by (auto simp: CPWord_decode_token_def CPWord_decode_metric_def Let_def ebind_Inr_iff)
  have t: "d_tempo_changes st' = d_tempo_changes st1" "d_current_tick st' = d_current_tick st1"
    using e by simp_all
  show ?thesis unfolding t using CPWord_decode_position_tempo [OF p] .
qed

theorem CPWord_position_tempo_dedup_witness:
  "\<exists>st'. CPWord_decode_token example_tempo_tokenizer 8 1 0 CPWord_initial_state
       [(''Family'', VText ''Metric''), (''Position'', VInt 4), (''Ignore'', VNone),
        (''Ignore'', VNone), (''Ignore'', VNone), (''Tempo'', VFloat 120)] = Inr st' \<and>
      d_tempo_changes CPWord_initial_state = [(- 1, - 1)] \<and>
      d_current_tick st' = 4 \<and>
      d_tempo_changes st' = [(- 1, - 1), (4, 120)]"
proof -
  let ?ct = "[(''Family'', VText ''Metric''), (''Position'', VInt 4), (''Ignore'', VNone),
        (''Ignore'', VNone), (''Ignore'', VNone), (''Tempo'', VFloat 120)]"
  have f: "field_value example_tempo_tokenizer ?ct ''Tempo'' = Inr (VFloat 120)"
    by (simp add: field_value_def vocab_types_idx_def CPWord_token_types_def dict_get_def
        example_tempo_simps py_nth_def upt_rec)
  obtain st' where d: "CPWord_decode_token example_tempo_tokenizer 8 1 0 CPWord_initial_state ?ct = Inr st'"
    and t: "d_current_tick st' = 4"
    by (simp add: CPWord_decode_token_def CPWord_decode_metric_def CPWord_decode_position_def f
        py_nth_def CPWord_initial_state_def Let_def round2_m1 example_tempo_simps)
  from CPWord_position_tempo_dedup [OF _ _ _ _ d, of "(''Family'', VText ''Metric'')" "(''Position'', VInt 4)"]
  have "d_tempo_changes st' = [(- 1, - 1), (4, 120)]"
    by (simp add: py_nth_def f example_tempo_simps t CPWord_initial_state_def round2_m1)
  with d t show ?thesis by (simp add: CPWord_initial_state_def)
qed


section \<open>The tokens that the CPWord encoder creates\<close>

lemma vocab_types_idx_cases:
  "dict_get (vocab_types_idx self) name = Inr i \<Longrightarrow>
   name \<in> {''Program'', ''Chord'', ''Rest'', ''Tempo'', ''TimeSig''} \<Longrightarrow>
   5 \<le> i \<and> i < 5 + int (number_of_additional_fields self)"
  unfolding vocab_types_idx_def CPWord_token_types_def dict_get_def number_of_additional_fields_def Let_def
  by (cases "use_programs self"; cases "use_chords self"; cases "use_rests self";
      cases "use_tempos self"; cases "use_time_signatures self")
     (auto simp: upt_rec split: if_splits)

lemma token_kind_update: "2 \<le> n \<Longrightarrow> token_kind (tk[n := e]) = token_kind tk"
  by (cases tk; cases "tl tk"; cases n; cases "n - 1") (auto simp: token_kind_def)

lemma is_rest_token_update:
  "is_rest_token (tk[n := e]) \<Longrightarrow> is_rest_token tk \<or> ev_type e = ''Rest''"
  by (auto simp: is_rest_token_def list_ex_iff dest: set_update_subset_insert [THEN subsetD])

lemma not_rest_token_update:
  "\<not> is_rest_token tk \<Longrightarrow> ev_type e \<noteq> ''Rest'' \<Longrightarrow> \<not> is_rest_token (tk[n := e])"
  using is_rest_token_update by blast

lemma set_field_kind:
  assumes "set_field self args tk name v = Inr tk'"
    and "name \<in> {''Program'', ''Chord'', ''Rest'', ''Tempo'', ''TimeSig''}"
  shows "token_kind tk' = token_kind tk" and "length tk' = length tk"
    and "is_rest_token tk' \<Longrightarrow> is_rest_token tk \<or> name = ''Rest''"
proof -
  from assms(1) obtain i where i: "dict_get (vocab_types_idx self) name = Inr i"
    and tk': "tk' = tk[nat i := create_event args name v]"
    by (auto simp: set_field_def ebind_Inr_iff split: if_splits)
  from vocab_types_idx_cases [OF i assms(2)] have "2 \<le> nat i" by linarith
  then show "token_kind tk' = token_kind tk" unfolding tk' by (rule token_kind_update)
  show "length tk' = length tk" unfolding tk' by simp
  assume "is_rest_token tk'"
  from is_rest_token_update [OF this [unfolded tk']]
  show "is_rest_token tk \<or> name = ''Rest''" by (simp add: create_event_def)
qed

lemma set_optional_kind:
  assumes "set_optional self args tk name v = Inr tk'"
    and "name \<in> {''Program'', ''Chord'', ''Rest'', ''Tempo'', ''TimeSig''}"
  shows "token_kind tk' = token_kind tk" and "length tk' = length tk"
    and "is_rest_token tk' \<Longrightarrow> is_rest_token tk \<or> name = ''Rest''"
  using assms set_field_kind [of self args tk name _ tk']
  by (auto simp: set_optional_def split: option.splits)

lemma base_token_not_rest:
  "\<not> is_rest_token (create_event args ''Family'' f # replicate n (create_event args ''Ignore'' VNone))"
  by (simp add: is_rest_token_def list_ex_iff create_event_def)

lemma create_bar_token:
  assumes "create_cp_token self args = Inr tk" and "a_bar args"
  shows "token_kind tk = ''Bar''" and "\<not> is_rest_token tk"
proof -
  let ?b = "(create_event args ''Family'' (VText ''Metric'')
              # replicate (4 + number_of_additional_fields self) (create_event args ''Ignore'' VNone))
            [1 := create_event args ''Bar'' VNone]"
  from assms have s: "set_optional self args ?b ''TimeSig'' (a_time_signature args) = Inr tk"
    by (simp add: create_cp_token_def Let_def)
  have k: "token_kind ?b = ''Bar''"
    by (simp add: token_kind_def create_event_def replicate_add numeral_eq_Suc)
  have r: "\<not> is_rest_token ?b"
    by (rule not_rest_token_update [OF base_token_not_rest]) (simp add: create_event_def)
  from set_optional_kind(1) [OF s] k show "token_kind tk = ''Bar''" by simp
  from set_optional_kind(3) [OF s] r show "\<not> is_rest_token tk" by auto
qed

lemma create_position_token:
  assumes "create_cp_token self args = Inr tk" and "\<not> a_bar args" and "a_pos args = Some pos"
  shows "token_kind tk = ''Position''" and "\<not> is_rest_token tk"
proof -
  let ?b = "(create_event args ''Family'' (VText ''Metric'')
              # replicate (4 + number_of_additional_fields self) (create_event args ''Ignore'' VNone))
            [1 := create_event args ''Position'' (VInt pos)]"
  from assms obtain tk1 where s1: "set_optional self args ?b ''Chord'' (a_chord args) = Inr tk1"
    and s2: "set_optional self args tk1 ''Tempo'' (a_tempo args) = Inr tk"
    by (auto simp: create_cp_token_def Let_def ebind_Inr_iff)
  have k: "token_kind ?b = ''Position''"
    by (simp add: token_kind_def create_event_def replicate_add numeral_eq_Suc)
  have r: "\<not> is_rest_token ?b"
    by (rule not_rest_token_update [OF base_token_not_rest]) (simp add: create_event_def)
  from set_optional_kind(1) [OF s1] set_optional_kind(1) [OF s2] k
  show "token_kind tk = ''Position''" by simp
  from set_optional_kind(3) [OF s1] set_optional_kind(3) [OF s2] r
  show "\<not> is_rest_token tk" by auto
qed

lemma create_rest_token:
  assumes "create_cp_token self args = Inr tk" and "\<not> a_bar args" and "a_pos args = None"
    and "a_rest args = Some rest"
  shows "token_kind tk = ''Ignore''" and "is_rest_token tk"
    and "\<exists>i<length tk. tk ! i = create_event args ''Rest'' rest"
proof -
  let ?b = "create_event args ''Family'' (VText ''Metric'')
              # replicate (4 + number_of_additional_fields self) (create_event args ''Ignore'' VNone)"
  from assms have s: "set_field self args ?b ''Rest'' rest = Inr tk"
    by (simp add: create_cp_token_def Let_def)
  have k: "token_kind ?b = ''Ignore''"
    by (simp add: token_kind_def create_event_def replicate_add numeral_eq_Suc)
  from set_field_kind(1) [OF s] k show "token_kind tk = ''Ignore''" by simp
  from s obtain i where i: "0 \<le> i" "i < int (length ?b)"
    and tk: "tk = ?b[nat i := create_event args ''Rest'' rest]"
    by (auto simp: set_field_def ebind_Inr_iff split: if_splits)
  from i have n: "nat i < length ?b" by linarith
  then have "tk ! nat i = create_event args ''Rest'' rest" unfolding tk by (rule nth_list_update_eq)
  moreover have "length tk = length ?b" unfolding tk by (rule length_list_update)
  with n have l: "nat i < length tk" by simp
  ultimately show "\<exists>i<length tk. tk ! i = create_event args ''Rest'' rest" by blast
  then obtain j where "j < length tk" "tk ! j = create_event args ''Rest'' rest" by blast
  then have "create_event args ''Rest'' rest \<in> set tk" by (metis nth_mem)
  then show "is_rest_token tk"
    unfolding is_rest_token_def list_ex_iff by (rule bexI [rotated]) (simp add: create_event_def)
qed

lemma create_note_token:
  assumes "create_cp_token self args = Inr tk" and "\<not> a_bar args" and "a_pos args = None"
    and "a_rest args = None" and "a_pitch args = Some pitch"
  shows "token_kind tk = ''Ignore''" and "\<not> is_rest_token tk"
proof -
  let ?b = "(create_event args ''Family'' (VText ''Metric'')
              # replicate (4 + number_of_additional_fields self) (create_event args ''Ignore'' VNone))
            [0 := create_event args ''Family'' (VText ''Note''),
             2 := create_event args ''Pitch'' pitch,
             3 := create_event args ''Velocity'' (case a_vel args of None \<Rightarrow> VNone | Some v \<Rightarrow> v),
             4 := create_event args ''Duration'' (case a_dur args of None \<Rightarrow> VNone | Some d \<Rightarrow> d)]"
  from assms have s: "set_optional self args ?b ''Program'' (a_program args) = Inr tk"
    by (simp add: create_cp_token_def Let_def)
  have k: "token_kind ?b = ''Ignore''"
    by (simp add: token_kind_def create_event_def replicate_add numeral_eq_Suc)
  have r: "\<not> is_rest_token ?b"
    by (simp add: is_rest_token_def create_event_def replicate_add numeral_eq_Suc list_ex_iff)
  from set_optional_kind(1) [OF s] k show "token_kind tk = ''Ignore''" by simp
  from set_optional_kind(3) [OF s] r show "\<not> is_rest_token tk" by auto
qed

lemma grid_simps [simp]:
  "grid (st\<lparr>e_all_events := a\<rparr>) = grid st"
  "grid (st\<lparr>e_current_bar := b\<rparr>) = grid st"
  "grid (st\<lparr>e_previous_tick := c\<rparr>) = grid st"
  "grid (st\<lparr>e_previous_note_end := d\<rparr>) = grid st"
  "grid (st\<lparr>e_tick_at_current_bar := e\<rparr>) = grid st"
  "grid (st\<lparr>e_current_tempo := f\<rparr>) = grid st"
  "grid (st\<lparr>e_current_program := g\<rparr>) = grid st"
  by (simp_all add: grid_def)

lemma rest_tokens_kind:
  "rest_tokens self t tick pairs = Inr (tokens, tick') \<Longrightarrow>
   length tokens = length pairs \<and> tick' = tick + sum_list (map snd pairs) \<and>
   list_all (\<lambda>tk. token_kind tk = ''Ignore'' \<and> is_rest_token tk) tokens"
proof (induction pairs arbitrary: tick tokens)
  case Nil
  then show ?case by simp
next
  case (Cons p pairs)
  obtain b s r dur_ticks where p: "p = ((b, s, r), dur_ticks)" by (cases p) auto
  from Cons.prems obtain token tokens1 where
    c: "create_cp_token self ((cp_args tick)\<lparr>a_rest := Some (VDur b s r), a_desc := DTicks (t - tick)\<rparr>) = Inr token"
    and r: "rest_tokens self t (tick + dur_ticks) pairs = Inr (tokens1, tick')"
    and tk: "tokens = token # tokens1"
    unfolding p by (auto simp: ebind_Inr_iff)
  from create_rest_token(1,2) [OF c] have "token_kind token = ''Ignore'' \<and> is_rest_token token"
    by (simp add: cp_args_def)
  with Cons.IH [OF r] show ?case by (simp add: tk p)
qed

lemma bar_tokens_kind:
  "bar_tokens self st ev n arg rounds = Inr tokens \<Longrightarrow>
   length tokens = length rounds \<and> list_all (\<lambda>tk. token_kind tk = ''Bar'' \<and> \<not> is_rest_token tk) tokens"
proof (induction rounds arbitrary: tokens arg)
  case Nil
  then show ?case by simp
next
  case (Cons i rounds)
  from Cons.prems obtain arg' token tokens1 where
    c: "create_cp_token self ((cp_args ((e_current_bar st + i + 1) * e_ticks_per_bar st))
                   \<lparr>a_bar := True, a_desc := DLabel ''Bar'', a_time_signature := arg'\<rparr>) = Inr token"
    and r: "bar_tokens self st ev n arg' rounds = Inr tokens1"
    and tk: "tokens = token # tokens1"
    by (auto simp: ebind_Inr_iff)
  from create_bar_token [OF c] have "token_kind token = ''Bar'' \<and> \<not> is_rest_token token" by simp
  with Cons.IH [OF r] show ?case by (simp add: tk)
qed

lemma encode_rests_appends:
  assumes "CPWord_encode_rests self st t = Inr st'"
  shows "\<exists>tokens. e_all_events st' = e_all_events st @ tokens \<and>
           list_all (\<lambda>tk. token_kind tk = ''Ignore'' \<and> is_rest_token tk) tokens"
    and "grid st' = grid st" and "e_previous_note_end st' = e_previous_note_end st"
    and "e_current_tempo st' = e_current_tempo st"
proof -
  show "\<exists>tokens. e_all_events st' = e_all_events st @ tokens \<and>
           list_all (\<lambda>tk. token_kind tk = ''Ignore'' \<and> is_rest_token tk) tokens"
    using assms unfolding CPWord_encode_rests_def Let_def
    by (auto simp: ebind_Inr_iff split: if_split_asm dest!: rest_tokens_kind)
  show "grid st' = grid st"
    using assms unfolding CPWord_encode_rests_def Let_def
    by (auto simp: ebind_Inr_iff split: if_split_asm)
  show "e_previous_note_end st' = e_previous_note_end st"
    using assms unfolding CPWord_encode_rests_def Let_def
    by (auto simp: ebind_Inr_iff split: if_split_asm)
  show "e_current_tempo st' = e_current_tempo st"
    using assms unfolding CPWord_encode_rests_def Let_def
    by (auto simp: ebind_Inr_iff split: if_split_asm)
qed

lemma encode_bars_appends:
  assumes "CPWord_encode_bars self st ev = Inr st'"
  shows "\<exists>tokens. e_all_events st' = e_all_events st @ tokens \<and>
           list_all (\<lambda>tk. token_kind tk = ''Bar'' \<and> \<not> is_rest_token tk) tokens"
    and "grid st' = grid st" and "e_previous_note_end st' = e_previous_note_end st"
    and "e_current_tempo st' = e_current_tempo st"
proof -
  show "\<exists>tokens. e_all_events st' = e_all_events st @ tokens \<and>
           list_all (\<lambda>tk. token_kind tk = ''Bar'' \<and> \<not> is_rest_token tk) tokens"
    using assms unfolding CPWord_encode_bars_def Let_def
    by (auto simp: ebind_Inr_iff split: if_split_asm dest!: bar_tokens_kind)
  show "grid st' = grid st"
    using assms unfolding CPWord_encode_bars_def Let_def
    by (auto simp: ebind_Inr_iff split: if_split_asm)
  show "e_previous_note_end st' = e_previous_note_end st"
    using assms unfolding CPWord_encode_bars_def Let_def
    by (auto simp: ebind_Inr_iff split: if_split_asm)
  show "e_current_tempo st' = e_current_tempo st"
    using assms unfolding CPWord_encode_bars_def Let_def
    by (auto simp: ebind_Inr_iff split: if_split_asm)
qed

lemma encode_position_appends:
  assumes "CPWord_encode_position self st ev = Inr st'"
  shows "ev_type ev = ''TimeSig'' \<Longrightarrow> st' = st"
    and "ev_type ev \<noteq> ''TimeSig'' \<Longrightarrow>
           \<exists>token. e_all_events st' = e_all_events st @ [token] \<and> token_kind token = ''Position''
             \<and> \<not> is_rest_token token"
    and "grid st' = grid st" and "e_previous_note_end st' = e_previous_note_end st"
proof -
  show "ev_type ev = ''TimeSig'' \<Longrightarrow> st' = st"
    using assms by (simp add: CPWord_encode_position_def)
  show "ev_type ev \<noteq> ''TimeSig'' \<Longrightarrow>
           \<exists>token. e_all_events st' = e_all_events st @ [token] \<and> token_kind token = ''Position''
             \<and> \<not> is_rest_token token"
  proof -
    assume n: "ev_type ev \<noteq> ''TimeSig''"
    with assms obtain args token where c: "create_cp_token self args = Inr token"
      and a: "\<not> a_bar args" "a_pos args = Some (ev_time ev - e_tick_at_current_bar st)"
      and e: "st' = st\<lparr>e_all_events := e_all_events st @ [token]\<rparr>"
      unfolding CPWord_encode_position_def Let_def
      by (auto simp: ebind_Inr_iff cp_args_def)
    from create_position_token [OF c a] e show ?thesis by simp
  qed
  show "grid st' = grid st"
    using assms unfolding CPWord_encode_position_def Let_def
    by (auto simp: ebind_Inr_iff split: if_split_asm)
  show "e_previous_note_end st' = e_previous_note_end st"
    using assms unfolding CPWord_encode_position_def Let_def
    by (auto simp: ebind_Inr_iff split: if_split_asm)
qed

section \<open>TimeSig events in CPWord encoding\<close>

lemma list_all_kind_weaken:
  "list_all (\<lambda>tk. token_kind tk = k \<and> P tk) tokens \<Longrightarrow> k \<noteq> k' \<Longrightarrow>
   list_all (\<lambda>tk. token_kind tk \<noteq> k') tokens"
  by (induction tokens) auto

lemma encode_time_appends:
  assumes "CPWord_encode_time self st ev = Inr st1"
  shows "grid st1 = grid st"
    and "e_previous_note_end st1 = e_previous_note_end st"
    and "e_current_tempo st1 = e_current_tempo st"
    and "e_previous_tick st1 = ev_time ev"
    and "\<exists>tokens. e_all_events st1 = e_all_events st @ tokens \<and>
           (ev_type ev = ''TimeSig'' \<longrightarrow> list_all (\<lambda>tk. token_kind tk \<noteq> ''Position'') tokens) \<and>
           (ev_type ev \<noteq> ''TimeSig'' \<and> ev_time ev \<noteq> e_previous_tick st
              \<longrightarrow> list_ex (\<lambda>tk. token_kind tk = ''Position'') tokens)"
proof -
  show "e_previous_tick st1 = ev_time ev"
    using assms unfolding CPWord_encode_time_def
    by (auto simp: ebind_Inr_iff split: if_split_asm)
  have "grid st1 = grid st \<and> e_previous_note_end st1 = e_previous_note_end st \<and>
        e_current_tempo st1 = e_current_tempo st \<and>
        (\<exists>tokens. e_all_events st1 = e_all_events st @ tokens \<and>
           (ev_type ev = ''TimeSig'' \<longrightarrow> list_all (\<lambda>tk. token_kind tk \<noteq> ''Position'') tokens) \<and>
           (ev_type ev \<noteq> ''TimeSig'' \<and> ev_time ev \<noteq> e_previous_tick st
              \<longrightarrow> list_ex (\<lambda>tk. token_kind tk = ''Position'') tokens))"
  proof (cases "ev_time ev = e_previous_tick st")
    case True
    with assms have "st1 = st" by (simp add: CPWord_encode_time_def)
    then show ?thesis using True by simp
  next
    case False
    with assms obtain sa sb sc where a: "CPWord_encode_rests self st (ev_time ev) = Inr sa"
      and b: "CPWord_encode_bars self sa ev = Inr sb"
      and c: "CPWord_encode_position self sb ev = Inr sc"
      and d: "st1 = sc\<lparr>e_previous_tick := ev_time ev\<rparr>"
      by (auto simp: CPWord_encode_time_def ebind_Inr_iff)
    from encode_rests_appends(1) [OF a] obtain ta where
      ta: "e_all_events sa = e_all_events st @ ta"
        "list_all (\<lambda>tk. token_kind tk = ''Ignore'' \<and> is_rest_token tk) ta" by blast
    from encode_bars_appends(1) [OF b] obtain tb where
      tb: "e_all_events sb = e_all_events sa @ tb"
        "list_all (\<lambda>tk. token_kind tk = ''Bar'' \<and> \<not> is_rest_token tk) tb" by blast
    have g: "grid st1 = grid st"
      using encode_rests_appends(2) [OF a] encode_bars_appends(2) [OF b]
        encode_position_appends(3) [OF c] d by simp
    have n: "e_previous_note_end st1 = e_previous_note_end st"
      using encode_rests_appends(3) [OF a] encode_bars_appends(3) [OF b]
        encode_position_appends(4) [OF c] d by simp
    have na: "list_all (\<lambda>tk. token_kind tk \<noteq> ''Position'') ta"
      by (rule list_all_kind_weaken [OF ta(2)]) simp
    have nb: "list_all (\<lambda>tk. token_kind tk \<noteq> ''Position'') tb"
      by (rule list_all_kind_weaken [OF tb(2)]) simp
    have tm: "e_current_tempo st1 = e_current_tempo st"
      using encode_rests_appends(4) [OF a] encode_bars_appends(4) [OF b] c d
      by (auto simp: CPWord_encode_position_def Let_def ebind_Inr_iff split: if_split_asm)
    show ?thesis
    proof (cases "ev_type ev = ''TimeSig''")
      case True
      from encode_position_appends(1) [OF c True] have "e_all_events st1 = e_all_events st @ (ta @ tb)"
        using d ta(1) tb(1) by simp
      moreover have "list_all (\<lambda>tk. token_kind tk \<noteq> ''Position'') (ta @ tb)"
        using na nb by simp
      ultimately show ?thesis using g n tm True by blast
    next
      case False
      from encode_position_appends(2) [OF c False] obtain token where
        tc: "e_all_events sc = e_all_events sb @ [token]" "token_kind token = ''Position''" by blast
      have "e_all_events st1 = e_all_events st @ (ta @ tb @ [token])"
        using d ta(1) tb(1) tc(1) by simp
      moreover have "list_ex (\<lambda>tk. token_kind tk = ''Position'') (ta @ tb @ [token])"
        using tc(2) by simp
      ultimately show ?thesis using g n tm False by blast
    qed
  qed
  then show "grid st1 = grid st" and "e_previous_note_end st1 = e_previous_note_end st"
    and "e_current_tempo st1 = e_current_tempo st"
    and "\<exists>tokens. e_all_events st1 = e_all_events st @ tokens \<and>
           (ev_type ev = ''TimeSig'' \<longrightarrow> list_all (\<lambda>tk. token_kind tk \<noteq> ''Position'') tokens) \<and>
           (ev_type ev \<noteq> ''TimeSig'' \<and> ev_time ev \<noteq> e_previous_tick st
              \<longrightarrow> list_ex (\<lambda>tk. token_kind tk = ''Position'') tokens)"
    by blast+
qed

lemma encode_note_appends:
  assumes "CPWord_encode_note self st ev following = Inr st'"
  shows "\<exists>tokens. e_all_events st' = e_all_events st @ tokens \<and>
           list_all (\<lambda>tk. token_kind tk = ''Ignore'' \<and> \<not> is_rest_token tk) tokens \<and>
           (ev_type ev \<noteq> ''Pitch'' \<longrightarrow> tokens = [])"
    and "grid st' = grid st" and "e_previous_tick st' = e_previous_tick st"
proof -
  show "\<exists>tokens. e_all_events st' = e_all_events st @ tokens \<and>
           list_all (\<lambda>tk. token_kind tk = ''Ignore'' \<and> \<not> is_rest_token tk) tokens \<and>
           (ev_type ev \<noteq> ''Pitch'' \<longrightarrow> tokens = [])"
  proof (cases "ev_type ev = ''Pitch'' \<and> 2 \<le> length following")
    case True
    define args where "args = (cp_args (ev_time ev))
                       \<lparr>a_pitch := Some (ev_value ev),
                        a_vel := Some (ev_value (following ! 0)),
                        a_dur := Some (ev_value (following ! 1)),
                        a_program := e_current_program st\<rparr>"
    from True assms obtain token where c: "create_cp_token self args = Inr token"
      and r: "(case ev_desc ev of
               DEnd note_end \<Rightarrow>
                 Inr (st\<lparr>e_all_events := e_all_events st @ [token],
                         e_previous_note_end := max (e_previous_note_end st) note_end\<rparr>)
             | _ \<Rightarrow> Inl TypeError) = Inr st'"
      unfolding CPWord_encode_note_def args_def by (auto simp: ebind_Inr_iff)
    have a: "\<not> a_bar args" "a_pos args = None" "a_rest args = None" "a_pitch args = Some (ev_value ev)"
      by (simp_all add: args_def cp_args_def)
    from r have e: "e_all_events st' = e_all_events st @ [token]"
      by (cases "ev_desc ev") auto
    from create_note_token [OF c a] e True show ?thesis by simp
  next
    case False
    with assms have "e_all_events st' = e_all_events st"
      unfolding CPWord_encode_note_def by (auto split: if_split_asm)
    then show ?thesis by simp
  qed
  show "grid st' = grid st"
    using assms unfolding CPWord_encode_note_def
    by (cases "ev_desc ev") (auto simp: ebind_Inr_iff split: if_split_asm)
  show "e_previous_tick st' = e_previous_tick st"
    using assms unfolding CPWord_encode_note_def
    by (cases "ev_desc ev") (auto simp: ebind_Inr_iff split: if_split_asm)
qed

text \<open>
  Claim C8. On a TimeSig event the encoder of CPWord first runs the Rest/Bar/Position part
  of the round on the grid as it was (that part leaves the grid unchanged and, for a
  TimeSig event, adds no Position token), and only then updates the grid: the bars counted
  under the old signature are added to the bar index of the last change, the anchor tick
  becomes the tick of the event and the bar length the one of the new signature. It then
  leaves \<open>previous_tick\<close> at the tick of the event minus one, so that a following
  event at the same tick (other than a Program or TimeSig event) gets a Position token.
\<close>

theorem CPWord_time_sig_event:
  assumes "ev_type ev = ''TimeSig''" and "CPWord_encode_step self st ev following = Inr st'"
  shows "(\<exists>st1 ts q tpb tokens.
            CPWord_encode_time self st ev = Inr st1 \<and> grid st1 = grid st \<and>
            e_all_events st1 = e_all_events st @ tokens \<and>
            list_all (\<lambda>tk. token_kind tk \<noteq> ''Position'') tokens \<and>
            split_time_sig (ev_value ev) = Inr ts \<and>
            py_floordiv (ev_time ev - e_tick_at_last_ts_change st) (e_ticks_per_bar st) = Inr q \<and>
            compute_ticks_per_bar ts (time_division self) = Inr tpb \<and>
            grid st' = (e_bar_at_last_ts_change st + q, ev_time ev, tpb, ts) \<and>
            e_all_events st' = e_all_events st1 \<and>
            e_previous_tick st' = ev_time ev - 1) \<and>
         (ev_time next_ev = ev_time ev \<and> ev_type next_ev \<noteq> ''TimeSig'' \<and> ev_type next_ev \<noteq> ''Program'' \<and>
          CPWord_encode_step self st' next_ev next_following = Inr st2
            \<longrightarrow> list_ex (\<lambda>tk. token_kind tk = ''Position'')
                  (drop (length (e_all_events st')) (e_all_events st2)))"
proof (rule conjI)
  from assms obtain st1 sb where t: "CPWord_encode_time self st ev = Inr st1"
    and u: "CPWord_encode_time_sig self st1 ev = Inr sb"
    and n: "CPWord_encode_note self sb ev following = Inr st'"
    by (auto simp: CPWord_encode_step_def ebind_Inr_iff)
  note g1 = encode_time_appends(1) [OF t]
  from encode_time_appends(5) [OF t] assms(1) obtain tokens where
    tk: "e_all_events st1 = e_all_events st @ tokens"
      "list_all (\<lambda>tk. token_kind tk \<noteq> ''Position'') tokens" by blast
  from u assms(1) obtain ts q tpb where s: "split_time_sig (ev_value ev) = Inr ts"
    and q: "py_floordiv (ev_time ev - e_tick_at_last_ts_change st1) (e_ticks_per_bar st1) = Inr q"
    and c: "compute_ticks_per_bar ts (time_division self) = Inr tpb"
    and sb: "sb = st1\<lparr>e_current_time_sig := ts,
                         e_bar_at_last_ts_change := e_bar_at_last_ts_change st1 + q,
                         e_tick_at_last_ts_change := ev_time ev,
                         e_ticks_per_bar := tpb,
                         e_previous_tick := e_previous_tick st1 - 1\<rparr>"
    by (auto simp: CPWord_encode_time_sig_def ebind_Inr_iff)
  from g1 have f: "e_tick_at_last_ts_change st1 = e_tick_at_last_ts_change st"
    "e_ticks_per_bar st1 = e_ticks_per_bar st" "e_bar_at_last_ts_change st1 = e_bar_at_last_ts_change st"
    by (simp_all add: grid_def)
  from encode_note_appends(1) [OF n] assms(1) have ev: "e_all_events st' = e_all_events sb" by auto
  have g: "grid st' = (e_bar_at_last_ts_change st + q, ev_time ev, tpb, ts)"
    using encode_note_appends(2) [OF n] by (simp add: sb grid_def f)
  have p: "e_previous_tick st' = ev_time ev - 1"
    using encode_note_appends(3) [OF n] encode_time_appends(4) [OF t] by (simp add: sb)
  show "\<exists>st1 ts q tpb tokens.
            CPWord_encode_time self st ev = Inr st1 \<and> grid st1 = grid st \<and>
            e_all_events st1 = e_all_events st @ tokens \<and>
            list_all (\<lambda>tk. token_kind tk \<noteq> ''Position'') tokens \<and>
            split_time_sig (ev_value ev) = Inr ts \<and>
            py_floordiv (ev_time ev - e_tick_at_last_ts_change st) (e_ticks_per_bar st) = Inr q \<and>
            compute_ticks_per_bar ts (time_division self) = Inr tpb \<and>
            grid st' = (e_bar_at_last_ts_change st + q, ev_time ev, tpb, ts) \<and>
            e_all_events st' = e_all_events st1 \<and>
            e_previous_tick st' = ev_time ev - 1"
    apply (rule exI [of _ st1], rule exI [of _ ts], rule exI [of _ q], rule exI [of _ tpb],
        rule exI [of _ tokens])
    using t g1 tk s q [unfolded f] c g p ev by (simp add: sb)
  show "ev_time next_ev = ev_time ev \<and> ev_type next_ev \<noteq> ''TimeSig'' \<and> ev_type next_ev \<noteq> ''Program'' \<and>
          CPWord_encode_step self st' next_ev next_following = Inr st2
            \<longrightarrow> list_ex (\<lambda>tk. token_kind tk = ''Position'')
                  (drop (length (e_all_events st')) (e_all_events st2))"
  proof (intro impI, elim conjE)
    assume a: "ev_time next_ev = ev_time ev" "ev_type next_ev \<noteq> ''TimeSig''"
      "ev_type next_ev \<noteq> ''Program''"
      "CPWord_encode_step self st' next_ev next_following = Inr st2"
    define s0 where "s0 = (if ev_type next_ev = ''Tempo'' then st'\<lparr>e_current_tempo := ev_value next_ev\<rparr> else st')"
    have s0: "e_all_events s0 = e_all_events st'" "e_previous_tick s0 = ev_time ev - 1"
      using p by (simp_all add: s0_def)
    from a(3,4) obtain sa sc where t2: "CPWord_encode_time self s0 next_ev = Inr sa"
      and u2: "CPWord_encode_time_sig self sa next_ev = Inr sc"
      and n2: "CPWord_encode_note self sc next_ev next_following = Inr st2"
      by (auto simp: CPWord_encode_step_def ebind_Inr_iff s0_def Let_def)
    from u2 a(2) have sc: "sc = sa" by (simp add: CPWord_encode_time_sig_def)
    from encode_time_appends(5) [OF t2] a(1,2) s0 obtain ta where
      ta: "e_all_events sa = e_all_events st' @ ta" "list_ex (\<lambda>tk. token_kind tk = ''Position'') ta"
      by auto
    from encode_note_appends(1) [OF n2] obtain tb where
      tb: "e_all_events st2 = e_all_events sc @ tb" by blast
    have "drop (length (e_all_events st')) (e_all_events st2) = ta @ tb"
      by (simp add: tb ta(1) sc)
    with ta(2) show "list_ex (\<lambda>tk. token_kind tk = ''Position'')
                  (drop (length (e_all_events st')) (e_all_events st2))" by simp
  qed
qed

lemma succeedsE: "succeeds r \<Longrightarrow> \<exists>x. r = Inr x"
  by (cases r) (simp_all add: succeeds_def)

lemma example_time_sig_steps:
  "succeeds (ebind (CPWord_encode_step example_time_sig_tokenizer example_encode_state
                      (Event ''TimeSig'' (VTimeSig 3 4) 32 DNone) [])
      (\<lambda>st'. CPWord_encode_step example_time_sig_tokenizer st'
                 (Event ''Pitch'' (VInt 62) 32 (DEnd 40))
                 [Event ''Velocity'' (VInt 80) 32 DNone, Event ''Duration'' (VDur 1 0 8) 32 DNone]))"
  by code_simp

theorem CPWord_time_sig_event_witness:
  "\<exists>st' st2.
     CPWord_encode_step example_time_sig_tokenizer example_encode_state
       (Event ''TimeSig'' (VTimeSig 3 4) 32 DNone) [] = Inr st' \<and>
     grid st' = (1, 32, 24, (3, 4)) \<and> e_previous_tick st' = 31 \<and>
     CPWord_encode_step example_time_sig_tokenizer st' (Event ''Pitch'' (VInt 62) 32 (DEnd 40))
       [Event ''Velocity'' (VInt 80) 32 DNone, Event ''Duration'' (VDur 1 0 8) 32 DNone] = Inr st2 \<and>
     list_ex (\<lambda>tk. token_kind tk = ''Position'') (drop (length (e_all_events st')) (e_all_events st2))"
proof -
  let ?ev = "Event ''TimeSig'' (VTimeSig 3 4) 32 DNone"
  let ?next = "Event ''Pitch'' (VInt 62) 32 (DEnd 40)"
  let ?nf = "[Event ''Velocity'' (VInt 80) 32 DNone, Event ''Duration'' (VDur 1 0 8) 32 DNone]"
  from succeedsE [OF example_time_sig_steps] obtain st' st2 where
    a: "CPWord_encode_step example_time_sig_tokenizer example_encode_state ?ev [] = Inr st'"
    and b: "CPWord_encode_step example_time_sig_tokenizer st' ?next ?nf = Inr st2"
    by (auto simp: ebind_Inr_iff)
  have ty: "ev_type ?ev = ''TimeSig''" by (simp add: Event_def)
  note t = CPWord_time_sig_event [OF ty a, of ?next ?nf st2]
  from t obtain ts q tpb where
    s: "split_time_sig (ev_value ?ev) = Inr ts"
    and q: "py_floordiv (ev_time ?ev - e_tick_at_last_ts_change example_encode_state)
              (e_ticks_per_bar example_encode_state) = Inr q"
    and c: "compute_ticks_per_bar ts (time_division example_time_sig_tokenizer) = Inr tpb"
    and g: "grid st' = (e_bar_at_last_ts_change example_encode_state + q, ev_time ?ev, tpb, ts)"
    and p: "e_previous_tick st' = ev_time ?ev - 1"
    by blast
  from s have ts: "ts = (3, 4)" by (simp add: Event_def)
  from q have q1: "q = 1" by (simp add: Event_def example_encode_state_def py_floordiv_def)
  from c have tpb: "tpb = 24"
    by (simp add: ts compute_ticks_per_bar_def py_floordiv_def example_time_sig_tokenizer_def
        example_tokenizer_def)
  from g have g': "grid st' = (1, 32, 24, (3, 4))"
    by (simp add: ts q1 tpb Event_def example_encode_state_def)
  from p have p': "e_previous_tick st' = 31" by (simp add: Event_def)
  from t b have "list_ex (\<lambda>tk. token_kind tk = ''Position'')
      (drop (length (e_all_events st')) (e_all_events st2))"
    by (simp add: Event_def)
  with a b g' p' show ?thesis by blast
qed


section \<open>Rest tokens in CPWord encoding\<close>

lemma length_running_ticks [simp]: "length (running_ticks t ds) = length ds"
  by (induction ds arbitrary: t) auto





lemma rest_token_of_is_rest:
  assumes "rest_token_of t tk p"
  shows "is_rest_token tk"
proof -
  obtain b s r d tick where p: "p = (((b, s, r), d), tick)" by (cases p) auto
  from assms have "\<lparr>ev_type = ''Rest'', ev_value = VDur b s r, ev_time = tick, ev_desc = DTicks (t - tick)\<rparr>
      \<in> set tk" by (simp add: rest_token_of_def p)
  then have "\<exists>e\<in>set tk. ev_type e = ''Rest''" by (rule bexI [rotated]) simp
  then show ?thesis by (simp add: is_rest_token_def list_ex_iff)
qed


























section \<open>The scenario of a change from 4/4 to 3/4\<close>

text \<open>
  Claim C9, as amended. With 8 ticks per quarter note, a change from 4/4 to 3/4 at tick
  32 makes the bars after it 24 ticks long, and a note at tick 40 is put in bar 1 (the
  bar that starts at tick 32), at position 8: the encoder emits two Bar tokens and then
  Position_8 for it, and the decoder, reading them, is in bar 1 with a bar length of 24
  and puts the note at tick 40.
\<close>

theorem waltz_scenario:
  "CPWord_encode_strings example_time_sig_tokenizer waltz_events = Inr waltz_tokens \<and>
   ebind (CPWord_encode_final example_time_sig_tokenizer waltz_events) (\<lambda>st. Inr (grid_of st))
     = Inr (1, 32, 24) \<and>
   ebind (CPWord_decode_final example_time_sig_tokenizer waltz_tokens) (\<lambda>st. Inr (cursor_of st))
     = Inr (1, 32, 24, 40) \<and>
   CPWord_tokens_to_midi example_time_sig_tokenizer (ManySeq [waltz_tokens]) None None =
     Inr \<lparr>sc_ticks_per_quarter = 8,
          sc_tracks = [\<lparr>tr_program = 0, tr_is_drum = False, tr_name = ''Acoustic Grand Piano'',
                        tr_notes = [Note 0 8 60 80, Note 40 8 62 80]\<rparr>],
          sc_tempos = [(0, 120)], sc_time_signatures = [(0, 4, 4), (32, 3, 4)]\<rparr>"
  by code_simp

text \<open>
  The claim as stated has position 16. The encoder emits Position_8 for the note at tick
  40, and a token Position_16 in that bar decodes to tick 48.
\<close>

theorem waltz_position_is_8:
  "ebind (CPWord_encode_strings example_time_sig_tokenizer waltz_events) (\<lambda>tokens. py_nth tokens 4) =
     Inr [(''Family'', VText ''Metric''), (''Position'', VInt 8), (''Ignore'', VNone), (''Ignore'', VNone),
          (''Ignore'', VNone), (''Ignore'', VNone)] \<and>
   ebind (CPWord_decode_final example_time_sig_tokenizer
            (take 4 waltz_tokens @
             [[(''Family'', VText ''Metric''), (''Position'', VInt 16), (''Ignore'', VNone), (''Ignore'', VNone),
               (''Ignore'', VNone), (''Ignore'', VNone)]]))
     (\<lambda>st. Inr (cursor_of st)) = Inr (1, 32, 24, 48)"
  by code_simp

section \<open>The growth of the vocabulary of MuMIDI\<close>

lemma extends_refl: "extends a a"
  by (simp add: extends_def)

lemma extends_length: "extends a b \<Longrightarrow> length a \<le> length b"
  unfolding extends_def by (drule arg_cong [of _ _ length]) simp

lemma extends_trans:
  assumes "extends a b" and "extends b c"
  shows "extends a c"
proof -
  from extends_length [OF assms(1)] have l: "length a \<le> length b" .
  have "take (length a) c = take (length a) (take (length b) c)" using l by (simp add: min_def)
  also have "\<dots> = take (length a) b" using assms(2) by (simp only: extends_def)
  also have "\<dots> = a" using assms(1) by (simp only: extends_def)
  finally show ?thesis by (simp only: extends_def)
qed

lemma extends_nth:
  assumes "extends a b" and "i < length a"
  shows "i < length b" and "b ! i = a ! i"
proof -
  from extends_length [OF assms(1)] assms(2) show "i < length b" by simp
  from assms(1) have "take (length a) b = a" by (simp only: extends_def)
  then have "a ! i = take (length a) b ! i" by simp
  also have "\<dots> = b ! i" using assms(2) by (rule nth_take)
  finally show "b ! i = a ! i" by simp
qed

lemma vocab_kept_refl: "vocab_kept v v"
  unfolding vocab_kept_def by (rule list_all2_refl) (rule extends_refl)

lemma vocab_kept_trans: "vocab_kept a b \<Longrightarrow> vocab_kept b c \<Longrightarrow> vocab_kept a c"
  unfolding vocab_kept_def by (rule list_all2_trans [OF extends_trans])

lemma vocab_kept_nth:
  assumes "vocab_kept old new" and "k < length old" and "i < length (old ! k)"
  shows "i < length (new ! k)" and "new ! k ! i = old ! k ! i"
proof -
  from assms(1,2) have e: "extends (old ! k) (new ! k)"
    unfolding vocab_kept_def by (rule list_all2_nthD)
  from extends_nth [OF e assms(3)] show "i < length (new ! k)" and "new ! k ! i = old ! k ! i" .
qed

lemma add_to_vocab_appends:
  "add_to_vocab self token k = Inr self' \<Longrightarrow>
   vocab self' = (vocab self)[k := vocab self ! k @ [token]] \<and> k < length (vocab self) \<and>
   max_bar_embedding self' = max_bar_embedding self"
  by (auto simp: add_to_vocab_def split: if_split_asm)

lemma add_to_vocab_kept:
  assumes "add_to_vocab self token k = Inr self'"
  shows "vocab_kept (vocab self) (vocab self')"
proof -
  from add_to_vocab_appends [OF assms] have v: "vocab self' = (vocab self)[k := vocab self ! k @ [token]]"
    by simp
  have e: "extends (vocab self ! k) (vocab self ! k @ [token])" by (simp add: extends_def)
  have "list_all2 extends ((vocab self)[k := vocab self ! k]) ((vocab self)[k := vocab self ! k @ [token]])"
    by (rule list_all2_update_cong [OF list_all2_refl [of extends, OF extends_refl] e])
  then show ?thesis unfolding vocab_kept_def v by (simp only: list_update_id)
qed

lemma add_bar_embeddings_kept:
  "add_bar_embeddings self rounds = Inr self' \<Longrightarrow> vocab_kept (vocab self) (vocab self')"
proof (induction rounds arbitrary: self)
  case Nil
  then show ?case by (simp add: vocab_kept_refl)
next
  case (Cons i rounds)
  then obtain s1 where a: "add_to_vocab self (''BarPosEnc'', VInt i) 1 = Inr s1"
    and b: "add_bar_embeddings s1 rounds = Inr self'" by (auto simp: ebind_Inr_iff)
  from vocab_kept_trans [OF add_to_vocab_kept [OF a] Cons.IH [OF b]] show ?case .
qed

lemma add_bar_embeddings_appends:
  "add_bar_embeddings self rounds = Inr self' \<Longrightarrow> rounds \<noteq> [] \<Longrightarrow>
   vocab self' = (vocab self)[1 := vocab self ! 1 @ map (\<lambda>i. (''BarPosEnc'', VInt i)) rounds]"
proof (induction rounds arbitrary: self)
  case Nil
  then show ?case by simp
next
  case (Cons i rounds)
  then obtain s1 where a: "add_to_vocab self (''BarPosEnc'', VInt i) 1 = Inr s1"
    and b: "add_bar_embeddings s1 rounds = Inr self'" by (auto simp: ebind_Inr_iff)
  note a' = add_to_vocab_appends [OF a]
  show ?case
  proof (cases "rounds = []")
    case True
    with b a' show ?thesis by simp
  next
    case False
    from Cons.IH [OF b False] a' show ?thesis by simp
  qed
qed

lemma check_bar_embedding_kept:
  assumes "MuMIDI_check_bar_embedding self max_tick midi = Inr self'"
  shows "vocab_kept (vocab self) (vocab self')"
proof -
  from assms obtain num_bars where
    r: "(if max_bar_embedding self < num_bars
       then ebind (add_bar_embeddings self [max_bar_embedding self .. num_bars - 1]) (\<lambda>self'.
              Inr (self'\<lparr>max_bar_embedding := num_bars\<rparr>))
       else Inr self) = Inr self'"
    unfolding MuMIDI_check_bar_embedding_def ebind_Inr_iff by blast
  show ?thesis
  proof (cases "max_bar_embedding self < num_bars")
    case True
    with r obtain s1 where a: "add_bar_embeddings self [max_bar_embedding self .. num_bars - 1] = Inr s1"
      and s: "self' = s1\<lparr>max_bar_embedding := num_bars\<rparr>"
      unfolding if_P [OF True] ebind_Inr_iff by auto
    from add_bar_embeddings_kept [OF a] show ?thesis by (simp add: s)
  next
    case False
    with r have "self' = self" by simp
    then show ?thesis by (simp add: vocab_kept_refl)
  qed
qed

lemma check_bar_embedding_grows:
  assumes "MuMIDI_check_bar_embedding self max_tick midi = Inr self'"
  shows "\<exists>num_bars. py_ceil_div max_tick (sc_ticks_per_quarter midi * 4) = Inr num_bars \<and>
           vocab self' =
             (if max_bar_embedding self < num_bars
              then (vocab self)[1 := vocab self ! 1
                      @ map (\<lambda>i. (''BarPosEnc'', VInt i)) [max_bar_embedding self .. num_bars - 1]]
              else vocab self)"
proof -
  from assms obtain num_bars where n: "py_ceil_div max_tick (sc_ticks_per_quarter midi * 4) = Inr num_bars"
    and r: "(if max_bar_embedding self < num_bars
       then ebind (add_bar_embeddings self [max_bar_embedding self .. num_bars - 1]) (\<lambda>self'.
              Inr (self'\<lparr>max_bar_embedding := num_bars\<rparr>))
       else Inr self) = Inr self'"
    unfolding MuMIDI_check_bar_embedding_def ebind_Inr_iff by blast
  have "vocab self' =
             (if max_bar_embedding self < num_bars
              then (vocab self)[1 := vocab self ! 1
                      @ map (\<lambda>i. (''BarPosEnc'', VInt i)) [max_bar_embedding self .. num_bars - 1]]
              else vocab self)"
  proof (cases "max_bar_embedding self < num_bars")
    case True
    with r obtain s1 where a: "add_bar_embeddings self [max_bar_embedding self .. num_bars - 1] = Inr s1"
      and s: "self' = s1\<lparr>max_bar_embedding := num_bars\<rparr>"
      unfolding if_P [OF True] ebind_Inr_iff by auto
    from True have "[max_bar_embedding self .. num_bars - 1] \<noteq> []" by (simp add: upto.simps)
    from add_bar_embeddings_appends [OF a this] s True show ?thesis by simp
  next
    case False
    with r show ?thesis by simp
  qed
  with n show ?thesis by blast
qed

lemma MuMIDI_decode_note_vocab:
  "MuMIDI_decode_note (self\<lparr>vocab := v, max_bar_embedding := m\<rparr>) td st time_step tok_val =
   MuMIDI_decode_note self td st time_step tok_val"
  by (simp add: MuMIDI_decode_note_def Let_def cong: if_cong)

lemma MuMIDI_decode_step_vocab:
  "MuMIDI_decode_step (self\<lparr>vocab := v, max_bar_embedding := m\<rparr>) td tps st time_step =
   MuMIDI_decode_step self td tps st time_step"
  by (simp add: MuMIDI_decode_step_def MuMIDI_decode_note_vocab Let_def cong: if_cong option.case_cong)

lemma MuMIDI_decode_loop_vocab:
  "MuMIDI_decode_loop (self\<lparr>vocab := v, max_bar_embedding := m\<rparr>) td tps st toks =
   MuMIDI_decode_loop self td tps st toks"
  by (induction toks arbitrary: st) (simp_all add: MuMIDI_decode_step_vocab)

lemma MuMIDI_make_tracks_vocab:
  "MuMIDI_make_tracks (self\<lparr>vocab := v, max_bar_embedding := m\<rparr>) trs = MuMIDI_make_tracks self trs"
  by (induction trs) (auto cong: if_cong)

text \<open>
  Claim C5. A call of \<^verbatim>\<open>MuMIDI._midi_to_tokens\<close> that returns leaves the vocabulary as it
  was when the piece has no more bars than the tokenizer has bar embeddings; otherwise it
  appends the labels BarPosEnc_i of the missing bars, in order, to the end of the
  sub-vocabulary of index 1 and changes nothing else. In both cases the vocabulary keeps
  its sub-vocabularies, and every index that held a label before the call holds the same
  label after it. Decoding neither reads nor grows the vocabulary: the result of
  \<^verbatim>\<open>MuMIDI._tokens_to_midi\<close> is a score alone, and it is the same whatever the
  vocabulary and the number of bar embeddings of the tokenizer are.
\<close>

theorem MuMIDI_vocab_append_only:
  "(MuMIDI_midi_to_tokens self max_tick midi = Inr (self', tokens)
      \<longrightarrow> (\<exists>num_bars. py_ceil_div max_tick (sc_ticks_per_quarter midi * 4) = Inr num_bars \<and>
             vocab self' =
               (if max_bar_embedding self < num_bars
                then (vocab self)[1 := vocab self ! 1
                        @ map (\<lambda>i. (''BarPosEnc'', VInt i)) [max_bar_embedding self .. num_bars - 1]]
                else vocab self)) \<and>
          length (vocab self') = length (vocab self) \<and>
          (\<forall>k i. k < length (vocab self) \<and> i < length (vocab self ! k)
                   \<longrightarrow> i < length (vocab self' ! k) \<and> vocab self' ! k ! i = vocab self ! k ! i)) \<and>
   MuMIDI_tokens_to_midi (self\<lparr>vocab := v, max_bar_embedding := m\<rparr>) toks td
     = MuMIDI_tokens_to_midi self toks td"
proof (intro conjI impI allI)
  assume a: "MuMIDI_midi_to_tokens self max_tick midi = Inr (self', tokens)"
  then have c: "MuMIDI_check_bar_embedding self max_tick midi = Inr self'"
    by (auto simp: MuMIDI_midi_to_tokens_def ebind_Inr_iff)
  from c show "\<exists>num_bars. py_ceil_div max_tick (sc_ticks_per_quarter midi * 4) = Inr num_bars \<and>
             vocab self' =
               (if max_bar_embedding self < num_bars
                then (vocab self)[1 := vocab self ! 1
                        @ map (\<lambda>i. (''BarPosEnc'', VInt i)) [max_bar_embedding self .. num_bars - 1]]
                else vocab self)"
    by (rule check_bar_embedding_grows)
  note k = check_bar_embedding_kept [OF c]
  then show "length (vocab self') = length (vocab self)"
    by (simp add: vocab_kept_def list_all2_lengthD)
  fix k i
  assume b: "k < length (vocab self) \<and> i < length (vocab self ! k)"
  then have b1: "k < length (vocab self)" and b2: "i < length (vocab self ! k)" by simp_all
  from vocab_kept_nth(1) [OF \<open>vocab_kept (vocab self) (vocab self')\<close> b1 b2]
  show "i < length (vocab self' ! k)" .
  from vocab_kept_nth(2) [OF \<open>vocab_kept (vocab self) (vocab self')\<close> b1 b2]
  show "vocab self' ! k ! i = vocab self ! k ! i" .
next
  show "MuMIDI_tokens_to_midi (self\<lparr>vocab := v, max_bar_embedding := m\<rparr>) toks td
     = MuMIDI_tokens_to_midi self toks td"
    by (cases td)
      (simp_all add: MuMIDI_tokens_to_midi_def MuMIDI_decode_loop_vocab MuMIDI_make_tracks_vocab Let_def
        cong: if_cong)
qed

lemma long_score_encoded: "succeeds (MuMIDI_midi_to_tokens small_vocab_MuMIDI 100 long_score)"
  by code_simp

lemma small_vocab_facts:
  "max_bar_embedding small_vocab_MuMIDI = 2"
  "vocab small_vocab_MuMIDI ! 1 = [(''BarPosEnc'', VInt 0), (''BarPosEnc'', VInt 1)]"
  "vocab small_vocab_MuMIDI ! Suc 0 = [(''BarPosEnc'', VInt 0), (''BarPosEnc'', VInt 1)]"
  "length (vocab small_vocab_MuMIDI) = 5"
  "sc_ticks_per_quarter long_score = 8"
  by (simp_all add: small_vocab_MuMIDI_def long_score_def)

theorem MuMIDI_vocab_append_only_witness:
  "\<exists>self' tokens.
     MuMIDI_midi_to_tokens small_vocab_MuMIDI 100 long_score = Inr (self', tokens) \<and>
     vocab self' ! 1 = [(''BarPosEnc'', VInt 0), (''BarPosEnc'', VInt 1),
                        (''BarPosEnc'', VInt 2), (''BarPosEnc'', VInt 3)] \<and>
     length (vocab self') = 5 \<and>
     vocab self' ! 1 ! 1 = vocab small_vocab_MuMIDI ! 1 ! 1"
proof -
  from succeedsE [OF long_score_encoded] obtain self' tokens where
    a: "MuMIDI_midi_to_tokens small_vocab_MuMIDI 100 long_score = Inr (self', tokens)"
    by (metis surj_pair)
  note t = MuMIDI_vocab_append_only [of small_vocab_MuMIDI 100 long_score self' tokens,
      THEN conjunct1, THEN mp, OF a]
  from t obtain num_bars where
    n: "py_ceil_div 100 (sc_ticks_per_quarter long_score * 4) = Inr num_bars"
    and g: "vocab self' =
               (if max_bar_embedding small_vocab_MuMIDI < num_bars
                then (vocab small_vocab_MuMIDI)[1 := vocab small_vocab_MuMIDI ! 1
                        @ map (\<lambda>i. (''BarPosEnc'', VInt i))
                            [max_bar_embedding small_vocab_MuMIDI .. num_bars - 1]]
                else vocab small_vocab_MuMIDI)"
    by blast
  from n have n4: "num_bars = 4" by (simp add: py_ceil_div_def small_vocab_facts)
  have u: "[2 .. 3 :: int] = [2, 3]" by (simp add: upto.simps)
  from g have v: "vocab self' ! 1 = [(''BarPosEnc'', VInt 0), (''BarPosEnc'', VInt 1),
                        (''BarPosEnc'', VInt 2), (''BarPosEnc'', VInt 3)]"
    by (simp add: n4 small_vocab_facts u)
  from t have l: "length (vocab self') = 5" by (simp add: small_vocab_facts)
  from t have "1 < length (vocab small_vocab_MuMIDI) \<and> 1 < length (vocab small_vocab_MuMIDI ! 1)
      \<longrightarrow> vocab self' ! 1 ! 1 = vocab small_vocab_MuMIDI ! 1 ! 1" by blast
  then have k: "vocab self' ! 1 ! 1 = vocab small_vocab_MuMIDI ! 1 ! 1" by (simp add: small_vocab_facts)
  from a v l k show ?thesis by blast
qed

end
